theory Spec2Isabelle
  imports Complex_Main
begin

section \<open>Coordinates, points and edges\<close>

text \<open>
  The site inspector stores a position as a JavaScript array \<^verbatim>\<open>[lng, lat]\<close> and a ring as
  an array of positions.  A position is modelled as a list of numbers, so that the
  source's \<^verbatim>\<open>start.length >= 2\<close> checks stay meaningful.  A JavaScript number is an
  IEEE double; a finite double is modelled as the real number it denotes.  Arithmetic on
  doubles rounds: where a theorem depends on the result of an operation, the rounding is
  written out (see the click handler of the boundary manager); where it does not, the
  operation is written as the real operation it approximates.  Reading a missing coordinate
  yields \<^verbatim>\<open>undefined\<close> in JavaScript; \<open>coord\<close> returns \<open>None\<close> there, and strict
  equality of two such reads is equality of the options.  Where the source does
  arithmetic on a coordinate, the model reads it with \<open>p ! i\<close>, which says nothing about a
  position that is too short (JavaScript computes \<^verbatim>\<open>NaN\<close> there); the theorems about such
  functions are stated for positions with at least two coordinates (\<open>wf_point\<close>).
\<close>

type_synonym point = "real list"

definition coord :: "point \<Rightarrow> nat \<Rightarrow> real option" where
  "coord p i = (if i < length p then Some (p ! i) else None)"

definition wf_point :: "point \<Rightarrow> bool" where
  "wf_point p \<longleftrightarrow> 2 \<le> length p"

definition lnglat :: "point \<Rightarrow> real \<times> real" where
  "lnglat p = (p ! 0, p ! 1)"

record edge =
  index :: nat
  start :: point
  endp :: point
  midpoint :: point

section \<open>SiteBoundaryManager: edge extraction\<close>

text \<open>
  \<^verbatim>\<open>calculatePolygonEdges(coordinates)\<close>.  The argument may be \<^verbatim>\<open>null\<close>/\<^verbatim>\<open>undefined\<close>
  (\<open>None\<close>).  An explicit closing point is sliced off when the ring has more than three
  positions and its first and last positions agree in both coordinates.  The loop then
  pushes one edge for every index whose start and end positions have at least two
  coordinates.
\<close>

definition coordsToProcess :: "point list \<Rightarrow> point list" where
  "coordsToProcess coordinates =
     (if length coordinates > 3
         \<and> coord (coordinates ! 0) 0 = coord (coordinates ! (length coordinates - 1)) 0
         \<and> coord (coordinates ! 0) 1 = coord (coordinates ! (length coordinates - 1)) 1
      then butlast coordinates
      else coordinates)"

definition make_edge :: "point list \<Rightarrow> nat \<Rightarrow> edge" where
  "make_edge cs i =
     (let s = cs ! i; e = cs ! ((i + 1) mod length cs)
      in \<lparr> index = i, start = s, endp = e,
           midpoint = [(s ! 0 + e ! 0) / 2, (s ! 1 + e ! 1) / 2] \<rparr>)"

function edges_loop :: "point list \<Rightarrow> nat \<Rightarrow> edge list \<Rightarrow> edge list" where
  "edges_loop cs i edges =
     (if i < length cs
      then (let s = cs ! i; e = cs ! ((i + 1) mod length cs)
            in if length s \<ge> 2 \<and> length e \<ge> 2
               then edges_loop cs (Suc i) (edges @ [make_edge cs i])
               else edges_loop cs (Suc i) edges)
      else edges)"
  by pat_completeness auto
termination
  by (relation "measure (\<lambda>(cs, i, edges). length cs - i)") auto

declare edges_loop.simps [simp del]

definition calculatePolygonEdges :: "point list option \<Rightarrow> edge list" where
  "calculatePolygonEdges coordinates =
     (case coordinates of
        None \<Rightarrow> []
      | Some cs \<Rightarrow> if length cs < 3 then [] else edges_loop (coordsToProcess cs) 0 [])"

section \<open>SiteBoundaryManager: area and perimeter\<close>

text \<open>
  \<^verbatim>\<open>Math.atan2\<close> on finite arguments, and the haversine distance of
  \<^verbatim>\<open>calculateDistance(lon1, lat1, lon2, lat2)\<close>.  The sums and products of this section
  are written with the real operations; the program computes them in doubles, so its
  results carry rounding errors that depend on the order of the operations.  Nothing below
  is proved about the value of these sums: only the guards in front of the loops are used.
\<close>

definition atan2 :: "real \<Rightarrow> real \<Rightarrow> real" where
  "atan2 y x =
     (if x > 0 then arctan (y / x)
      else if x < 0 \<and> y \<ge> 0 then arctan (y / x) + pi
      else if x < 0 \<and> y < 0 then arctan (y / x) - pi
      else if y > 0 then pi / 2
      else if y < 0 then - (pi / 2)
      else 0)"

definition calculateDistance :: "real \<Rightarrow> real \<Rightarrow> real \<Rightarrow> real \<Rightarrow> real" where
  "calculateDistance lon1 lat1 lon2 lat2 =
     (let R = 6371000;
          phi1 = lat1 * pi / 180;
          phi2 = lat2 * pi / 180;
          dphi = (lat2 - lat1) * pi / 180;
          dlam = (lon2 - lon1) * pi / 180;
          a = sin (dphi / 2) * sin (dphi / 2)
              + cos phi1 * cos phi2 * sin (dlam / 2) * sin (dlam / 2);
          c = 2 * atan2 (sqrt a) (sqrt (1 - a))
      in R * c)"

text \<open>
  \<^verbatim>\<open>calculatePolygonAreaFallback\<close>: the planar shoelace sum over the first \<open>n - 1\<close>
  positions, the successor index taken modulo \<open>n - 1\<close>.
\<close>

definition shoelace_step :: "point list \<Rightarrow> real \<Rightarrow> nat \<Rightarrow> real" where
  "shoelace_step cs area i =
     (let j = (i + 1) mod (length cs - 1)
      in area + (cs ! i) ! 0 * (cs ! j) ! 1 - (cs ! j) ! 0 * (cs ! i) ! 1)"

definition calculatePolygonAreaFallback :: "point list option \<Rightarrow> real" where
  "calculatePolygonAreaFallback coordinates =
     (case coordinates of
        None \<Rightarrow> 0
      | Some cs \<Rightarrow>
          if length cs < 3 then 0
          else \<bar>foldl (shoelace_step cs) 0 [0..<length cs - 1]\<bar> / 2)"

text \<open>
  \<^verbatim>\<open>calculatePolygonArea\<close> asks the turf library first and uses the fallback when turf
  throws.  The library is a parameter: \<open>turf cs = None\<close> stands for a thrown exception.
\<close>

definition calculatePolygonArea :: "(point list \<Rightarrow> real option) \<Rightarrow> point list option \<Rightarrow> real" where
  "calculatePolygonArea turf coordinates =
     (case coordinates of
        None \<Rightarrow> 0
      | Some cs \<Rightarrow>
          if length cs < 3 then 0
          else (case turf cs of
                  Some a \<Rightarrow> a
                | None \<Rightarrow> calculatePolygonAreaFallback coordinates))"

definition perimeter_step :: "point list \<Rightarrow> real \<Rightarrow> nat \<Rightarrow> real" where
  "perimeter_step cs perimeter i =
     (let s = cs ! i; e = cs ! (i + 1)
      in perimeter + calculateDistance (s ! 0) (s ! 1) (e ! 0) (e ! 1))"

definition calculatePolygonPerimeter :: "point list option \<Rightarrow> real" where
  "calculatePolygonPerimeter coordinates =
     (case coordinates of
        None \<Rightarrow> 0
      | Some cs \<Rightarrow>
          if length cs < 3 then 0
          else foldl (perimeter_step cs) 0 [0..<length cs - 1])"

section \<open>SiteBoundaryManager: tracking clicked points while drawing\<close>

text \<open>
  A map event carries a position \<^verbatim>\<open>e.lngLat\<close> with fields \<^verbatim>\<open>lng\<close> and \<^verbatim>\<open>lat\<close>.
\<close>

record lngLat =
  lng :: real
  lat :: real

text \<open>
  The literal \<^verbatim>\<open>0.000001\<close> denotes the double \<^verbatim>\<open>0x1.0c6f7a0b5ed8dp-20\<close>, which is slightly
  smaller than \<open>1 / 10 ^ 6\<close>.
\<close>

definition double_0_000001 :: real where
  "double_0_000001 = 4722366482869645 / 2 ^ 72"

text \<open>
  \<^verbatim>\<open>SiteBoundaryManager.handleMapClick(e)\<close>: the draw mode is read from the MapboxDraw
  control, \<open>drawingPoints\<close> is the manager's list of tracked points.  The function
  returns the list after the click.  \<^verbatim>\<open>lastPoint\<close> is \<^verbatim>\<open>undefined\<close> for an empty list; a
  comparison with a coordinate the last point does not have is false.  The subtraction of
  two doubles yields the double nearest to their difference: \<open>rnd\<close> is this rounding to
  the nearest double, a parameter of the model.  \<^verbatim>\<open>Math.abs\<close> and \<^verbatim>\<open><\<close> are exact.
\<close>

definition SiteBoundaryManager_handleMapClick ::
  "(real \<Rightarrow> real) \<Rightarrow> string \<Rightarrow> point list \<Rightarrow> lngLat \<Rightarrow> point list" where
  "SiteBoundaryManager_handleMapClick rnd drawMode drawingPoints e =
     (if drawMode \<noteq> ''draw_polygon'' then drawingPoints
      else let newPoint = [lng e, lat e] in
           if drawingPoints \<noteq> []
              \<and> (case coord (last drawingPoints) 0 of
                   None \<Rightarrow> False
                 | Some a \<Rightarrow> \<bar>rnd (a - newPoint ! 0)\<bar> < double_0_000001)
              \<and> (case coord (last drawingPoints) 1 of
                   None \<Rightarrow> False
                 | Some b \<Rightarrow> \<bar>rnd (b - newPoint ! 1)\<bar> < double_0_000001)
           then drawingPoints
           else drawingPoints @ [newPoint])"

section \<open>PropertySetbacksManager: edge selection\<close>

record setbacks_state =
  polygonEdges :: "edge list"
  selectedFront :: "edge option"
  selectedBack :: "edge option"
  isEdgeSelectionMode :: bool

definition distanceToLineSegment :: "point \<Rightarrow> point \<Rightarrow> point \<Rightarrow> real" where
  "distanceToLineSegment pt lineStart lineEnd =
     (let A = pt ! 0 - lineStart ! 0;
          B = pt ! 1 - lineStart ! 1;
          C = lineEnd ! 0 - lineStart ! 0;
          D = lineEnd ! 1 - lineStart ! 1;
          dot = A * C + B * D;
          lenSq = C * C + D * D;
          param = (if lenSq \<noteq> 0 then dot / lenSq else - 1);
          xx = (if param < 0 then lineStart ! 0
                else if param > 1 then lineEnd ! 0
                else lineStart ! 0 + param * C);
          yy = (if param < 0 then lineStart ! 1
                else if param > 1 then lineEnd ! 1
                else lineStart ! 1 + param * D);
          dx = pt ! 0 - xx;
          dy = pt ! 1 - yy
      in sqrt (dx * dx + dy * dy))"

text \<open>
  \<^verbatim>\<open>findNearestEdge(clickPoint)\<close>: the accumulator is the pair of \<^verbatim>\<open>nearestEdge\<close>
  (initially \<^verbatim>\<open>null\<close>) and \<^verbatim>\<open>minDistance\<close> (initially \<^verbatim>\<open>Infinity\<close>, here \<open>None\<close>).
\<close>

definition nearest_step :: "point \<Rightarrow> edge option \<times> real option \<Rightarrow> edge \<Rightarrow> edge option \<times> real option" where
  "nearest_step clickPoint acc e =
     (let distance = distanceToLineSegment clickPoint (start e) (endp e);
          threshold = 0.0001
      in if (case snd acc of None \<Rightarrow> True | Some minDistance \<Rightarrow> distance < minDistance)
            \<and> distance < threshold
         then (Some e, Some distance)
         else acc)"

definition findNearestEdge :: "setbacks_state \<Rightarrow> point \<Rightarrow> edge option" where
  "findNearestEdge st clickPoint = fst (foldl (nearest_step clickPoint) (None, None) (polygonEdges st))"

definition exitEdgeSelectionMode :: "setbacks_state \<Rightarrow> setbacks_state" where
  "exitEdgeSelectionMode st = st \<lparr> isEdgeSelectionMode := False \<rparr>"

text \<open>
  \<^verbatim>\<open>handleEdgeSelection(e)\<close>: the event is \<open>None\<close> when it is missing or has no position.
  Display updates and the preview request issued after the back edge is chosen do not
  change the selection state and are left out.
\<close>

definition handleEdgeSelection :: "setbacks_state \<Rightarrow> lngLat option \<Rightarrow> setbacks_state" where
  "handleEdgeSelection st ev =
     (if \<not> isEdgeSelectionMode st then st
      else case ev of
        None \<Rightarrow> st
      | Some e \<Rightarrow>
          (case findNearestEdge st [lng e, lat e] of
             None \<Rightarrow> st
           | Some selectedEdge \<Rightarrow>
               (case selectedFront st of
                  None \<Rightarrow> st \<lparr> selectedFront := Some selectedEdge \<rparr>
                | Some front \<Rightarrow>
                    if selectedBack st = None \<and> index selectedEdge \<noteq> index front
                    then exitEdgeSelectionMode (st \<lparr> selectedBack := Some selectedEdge \<rparr>)
                    else st)))"

definition distinct_selection :: "setbacks_state \<Rightarrow> bool" where
  "distinct_selection st =
     (case (selectedFront st, selectedBack st) of
        (Some f, Some b) \<Rightarrow> index f \<noteq> index b
      | _ \<Rightarrow> True)"

section \<open>Setback distances and the computation request\<close>

text \<open>
  \<open>jsnum\<close> is what \<^verbatim>\<open>parseFloat\<close> returns: \<open>NaN\<close> for a value that is missing
  (\<^verbatim>\<open>undefined\<close>), empty or not numeric, a number otherwise.  \<open>or_default x d\<close> is the
  JavaScript expression \<^verbatim>\<open>x || d\<close> on such a value: \<open>NaN\<close> and \<open>0\<close> are falsy.
\<close>

datatype jsnum = NaN | Num real

definition or_default :: "jsnum \<Rightarrow> real \<Rightarrow> real" where
  "or_default x d = (case x of NaN \<Rightarrow> d | Num v \<Rightarrow> if v = 0 then d else v)"

text \<open>
  The payload of the \<^verbatim>\<open>preview-buildable-area\<close> and \<^verbatim>\<open>recalculate-buildable-area\<close>
  events.  The setback fields hold what \<^verbatim>\<open>parseFloat\<close> makes of the payload's values.
\<close>

record event_data =
  frontSetback :: jsnum
  backSetback :: jsnum
  sideSetback :: jsnum
  d_selectedFront :: "edge option"
  d_selectedBack :: "edge option"
  d_polygonEdges :: "edge list"

text \<open>
  \<^verbatim>\<open>calculateBuildableAreaPreview\<close> and \<^verbatim>\<open>recalculateBuildableArea\<close> of the setbacks
  manager read the three input fields in the same way; \<open>frontInput\<close>, \<open>backInput\<close> and
  \<open>sideInput\<close> are \<^verbatim>\<open>parseFloat(document.getElementById(...)?.value)\<close>.  Neither emits
  an event unless both edges are selected.
\<close>

definition calculateBuildableAreaPreview ::
  "setbacks_state \<Rightarrow> jsnum \<Rightarrow> jsnum \<Rightarrow> jsnum \<Rightarrow> event_data option" where
  "calculateBuildableAreaPreview st frontInput backInput sideInput =
     (if selectedFront st = None \<or> selectedBack st = None then None
      else Some \<lparr> frontSetback = Num (or_default frontInput 4.5),
                  backSetback = Num (or_default backInput 3.5),
                  sideSetback = Num (or_default sideInput 1.5),
                  d_selectedFront = selectedFront st,
                  d_selectedBack = selectedBack st,
                  d_polygonEdges = polygonEdges st \<rparr>)"

definition recalculateBuildableArea ::
  "setbacks_state \<Rightarrow> jsnum \<Rightarrow> jsnum \<Rightarrow> jsnum \<Rightarrow> event_data option" where
  "recalculateBuildableArea st frontInput backInput sideInput =
     (if selectedFront st = None \<or> selectedBack st = None then None
      else Some \<lparr> frontSetback = Num (or_default frontInput 4.5),
                  backSetback = Num (or_default backInput 3.5),
                  sideSetback = Num (or_default sideInput 1.5),
                  d_selectedFront = selectedFront st,
                  d_selectedBack = selectedBack st,
                  d_polygonEdges = polygonEdges st \<rparr>)"

datatype edge_type = Front | Back | Side

record classification =
  c_index :: nat
  c_type :: edge_type
  setback :: real

text \<open>
  The classification block shared by \<^verbatim>\<open>handleBuildableAreaPreview\<close> and
  \<^verbatim>\<open>handleBuildableAreaCalculation\<close>: \<^verbatim>\<open>forEach((edge, index) => ...)\<close> over the
  payload's edges, \<open>i\<close> being the position in the array.
\<close>

definition classify_edge :: "event_data \<Rightarrow> nat \<Rightarrow> classification" where
  "classify_edge d i =
     (case (d_selectedFront d, d_selectedBack d) of
        (Some front, Some back) \<Rightarrow>
          if i = index front
          then \<lparr> c_index = i, c_type = Front, setback = or_default (frontSetback d) 0 \<rparr>
          else if i = index back
          then \<lparr> c_index = i, c_type = Back, setback = or_default (backSetback d) 0 \<rparr>
          else \<lparr> c_index = i, c_type = Side, setback = or_default (sideSetback d) 0 \<rparr>
      | _ \<Rightarrow> \<lparr> c_index = i, c_type = Side, setback = or_default (sideSetback d) 0 \<rparr>)"

definition edgeClassifications :: "event_data \<Rightarrow> classification list" where
  "edgeClassifications d = map (classify_edge d) [0..<length (d_polygonEdges d)]"

text \<open>
  The request body.  \<open>requirements\<close> takes the payload's setbacks as they are and lets the
  council requirements of the site data override them (object spread).
\<close>

record request =
  site_coords :: "point list"
  requirements :: "string \<rightharpoonup> jsnum"
  edge_classifications :: "classification list"

definition build_request :: "event_data \<Rightarrow> point list \<Rightarrow> (string \<rightharpoonup> jsnum) \<Rightarrow> request" where
  "build_request d siteCoords council_requirements =
     \<lparr> site_coords = siteCoords,
       requirements =
         [''front_setback'' \<mapsto> frontSetback d,
          ''side_setback'' \<mapsto> sideSetback d,
          ''rear_setback'' \<mapsto> backSetback d] ++ council_requirements,
       edge_classifications = edgeClassifications d \<rparr>"

text \<open>
  The request each handler sends.  \<open>sitePolygon\<close> is the ring of the boundary manager's
  site polygon, \<open>None\<close> when there is no boundary (manager) or the polygon has no
  coordinates: \<^verbatim>\<open>handleBuildableAreaPreview\<close> then returns silently,
  \<^verbatim>\<open>handleBuildableAreaCalculation\<close> throws an error that its catch block reports.
\<close>

definition preview_request ::
  "point list option \<Rightarrow> (string \<rightharpoonup> jsnum) \<Rightarrow> event_data \<Rightarrow> request option" where
  "preview_request sitePolygon council_requirements d =
     (case sitePolygon of
        None \<Rightarrow> None
      | Some siteCoords \<Rightarrow> Some (build_request d siteCoords council_requirements))"

definition calculation_request ::
  "point list option \<Rightarrow> (string \<rightharpoonup> jsnum) \<Rightarrow> event_data \<Rightarrow> string + request" where
  "calculation_request sitePolygon council_requirements d =
     (case sitePolygon of
        None \<Rightarrow> Inl ''No site boundary available for calculation''
      | Some siteCoords \<Rightarrow> Inr (build_request d siteCoords council_requirements))"

text \<open>
  A recompute from the input fields to the request: the setbacks manager emits the event,
  the event bus hands the payload to the inspector's handler.
\<close>

definition preview_recompute ::
  "setbacks_state \<Rightarrow> jsnum \<Rightarrow> jsnum \<Rightarrow> jsnum \<Rightarrow> point list option \<Rightarrow> (string \<rightharpoonup> jsnum)
     \<Rightarrow> request option" where
  "preview_recompute st frontInput backInput sideInput sitePolygon council_requirements =
     (case calculateBuildableAreaPreview st frontInput backInput sideInput of
        None \<Rightarrow> None
      | Some d \<Rightarrow> preview_request sitePolygon council_requirements d)"

definition confirm_recompute ::
  "setbacks_state \<Rightarrow> jsnum \<Rightarrow> jsnum \<Rightarrow> jsnum \<Rightarrow> point list option \<Rightarrow> (string \<rightharpoonup> jsnum)
     \<Rightarrow> (string + request) option" where
  "confirm_recompute st frontInput backInput sideInput sitePolygon council_requirements =
     (case recalculateBuildableArea st frontInput backInput sideInput of
        None \<Rightarrow> None
      | Some d \<Rightarrow> Some (calculation_request sitePolygon council_requirements d))"

text \<open>
  The classifications a recompute produces, in terms of the effective setbacks \<open>F\<close>,
  \<open>B\<close> and \<open>S\<close> and the indices of the front and back edge.
\<close>

definition classified :: "real \<Rightarrow> real \<Rightarrow> real \<Rightarrow> nat \<Rightarrow> nat \<Rightarrow> nat \<Rightarrow> classification" where
  "classified F B S fi bi i =
     (if i = fi then \<lparr> c_index = i, c_type = Front, setback = F \<rparr>
      else if i = bi then \<lparr> c_index = i, c_type = Back, setback = B \<rparr>
      else \<lparr> c_index = i, c_type = Side, setback = S \<rparr>)"

section \<open>Snapshot parsing\<close>

text \<open>
  \<^verbatim>\<open>loadExistingSiteBoundary\<close> and \<^verbatim>\<open>loadExistingBuildableArea\<close> parse
  \<^verbatim>\<open>snapshot_data\<close> with the same nested try blocks.  \<^verbatim>\<open>JSON.parse\<close> is a parameter
  (\<open>None\<close> when it throws); \<open>replace_quotes\<close> is \<^verbatim>\<open>.replace(/'/g, '"')\<close>.  The result
  \<open>None\<close> is the path that logs the failure and returns from the loader.
\<close>

definition replace_quotes :: "string \<Rightarrow> string" where
  "replace_quotes s = map (\<lambda>c. if c = CHR 0x27 then CHR 0x22 else c) s"

definition parse_snapshot_data :: "(string \<Rightarrow> 'j option) \<Rightarrow> string \<Rightarrow> 'j option" where
  "parse_snapshot_data JSON_parse snapshot_data =
     (case JSON_parse snapshot_data of
        Some snapshotData \<Rightarrow> Some snapshotData
      | None \<Rightarrow>
          (case JSON_parse (replace_quotes snapshot_data) of
             Some snapshotData \<Rightarrow> Some snapshotData
           | None \<Rightarrow> None))"

section \<open>FloorplanManager: drawing and transforming the footprint\<close>

record floorplan_state =
  geojsonPolygon :: "point list option"
  isDrawing :: bool
  drawingPoints :: "point list"
  rotation :: real
  scale :: real
  rotationCenter :: "lngLat option"

datatype js_error = TypeError

text \<open>
  A JavaScript value that is a number or \<^verbatim>\<open>undefined\<close> is a \<open>real option\<close>.  A comparison
  with \<^verbatim>\<open>undefined\<close> is false, and arithmetic on it yields \<^verbatim>\<open>NaN\<close>, with which every
  comparison is false as well.
\<close>

definition js_gt :: "real option \<Rightarrow> real \<Rightarrow> bool" where
  "js_gt a y = (case a of None \<Rightarrow> False | Some v \<Rightarrow> v > y)"

definition js_lt :: "real \<Rightarrow> real option \<Rightarrow> bool" where
  "js_lt x b = (case b of None \<Rightarrow> False | Some v \<Rightarrow> x < v)"

text \<open>The expression \<^verbatim>\<open>(xj - xi) * (y - yi) / (yj - yi) + xi\<close>; \<open>None\<close> is \<^verbatim>\<open>NaN\<close>.\<close>

definition crossing :: "real option \<Rightarrow> real option \<Rightarrow> real option \<Rightarrow> real option \<Rightarrow> real \<Rightarrow> real option" where
  "crossing xi yi xj yj y =
     (case xi of None \<Rightarrow> None | Some a \<Rightarrow>
      case yi of None \<Rightarrow> None | Some b \<Rightarrow>
      case xj of None \<Rightarrow> None | Some c \<Rightarrow>
      case yj of None \<Rightarrow> None | Some d \<Rightarrow> Some ((c - a) * (y - b) / (d - b) + a))"

text \<open>
  \<^verbatim>\<open>pointInPolygon(point, polygon)\<close>: the loop variable \<open>j\<close> trails \<open>i\<close>, starting at
  the last index.  The second conjunct is only evaluated when the first holds, where
  \<open>yj - yi\<close> is not zero.  The entries of the polygon's positions may be \<^verbatim>\<open>undefined\<close>.
\<close>

definition pip_step :: "point \<Rightarrow> real option list list \<Rightarrow> bool \<times> nat \<Rightarrow> nat \<Rightarrow> bool \<times> nat" where
  "pip_step pt polygon acc i =
     (let x = pt ! 0; y = pt ! 1;
          inside = fst acc; j = snd acc;
          xi = polygon ! i ! 0; yi = polygon ! i ! 1;
          xj = polygon ! j ! 0; yj = polygon ! j ! 1
      in if (js_gt yi y \<noteq> js_gt yj y) \<and> js_lt x (crossing xi yi xj yj y)
         then (\<not> inside, i)
         else (inside, i))"

definition pointInPolygon :: "point \<Rightarrow> real option list list \<Rightarrow> bool" where
  "pointInPolygon pt polygon =
     fst (foldl (pip_step pt polygon) (False, length polygon - 1) [0..<length polygon])"

text \<open>
  A coordinate of the site data as \<^verbatim>\<open>isPointWithinSiteBoundary\<close> reads it, by its
  properties \<^verbatim>\<open>lng\<close> and \<^verbatim>\<open>lat\<close>.  The inspector core stores the boundary's coordinates
  as \<^verbatim>\<open>[lng, lat]\<close> arrays (\<^verbatim>\<open>handleSiteBoundaryCreated\<close>, \<^verbatim>\<open>handleSiteBoundaryLoaded\<close>); an
  array has neither property.
\<close>

datatype js_coord = Position point | LngLatObject lngLat

definition coord_lng :: "js_coord \<Rightarrow> real option" where
  "coord_lng c = (case c of Position p \<Rightarrow> None | LngLatObject ll \<Rightarrow> Some (lng ll))"

definition coord_lat :: "js_coord \<Rightarrow> real option" where
  "coord_lat c = (case c of Position p \<Rightarrow> None | LngLatObject ll \<Rightarrow> Some (lat ll))"

record site_data =
  sd_coordinates :: "js_coord list option"

text \<open>
  \<^verbatim>\<open>isPointWithinSiteBoundary(lngLat)\<close>: \<open>siteData\<close> is the value of
  \<^verbatim>\<open>window.siteInspector?.siteData\<close>, \<open>None\<close> when it is \<^verbatim>\<open>undefined\<close>.  The source
  assigns \<^verbatim>\<open>window.siteInspectorCore\<close> and never \<^verbatim>\<open>window.siteInspector\<close>, so \<open>None\<close> is
  what the manager finds unless some other script defines that global.  Without site data
  or coordinates every point is accepted.
\<close>

definition isPointWithinSiteBoundary :: "site_data option \<Rightarrow> lngLat \<Rightarrow> bool" where
  "isPointWithinSiteBoundary siteData p =
     (case siteData of
        None \<Rightarrow> True
      | Some sd \<Rightarrow>
          (case sd_coordinates sd of
             None \<Rightarrow> True
           | Some coordinates \<Rightarrow>
               pointInPolygon [lng p, lat p] (map (\<lambda>c. [coord_lng c, coord_lat c]) coordinates)))"

definition addDrawingPoint :: "floorplan_state \<Rightarrow> lngLat \<Rightarrow> floorplan_state" where
  "addDrawingPoint st p = st \<lparr> drawingPoints := drawingPoints st @ [[lng p, lat p]] \<rparr>"

definition FloorplanManager_handleMapClick ::
  "site_data option \<Rightarrow> floorplan_state \<Rightarrow> lngLat \<Rightarrow> floorplan_state" where
  "FloorplanManager_handleMapClick siteData st p =
     (if \<not> isDrawing st then st
      else if \<not> isPointWithinSiteBoundary siteData p then st
      else addDrawingPoint st p)"

text \<open>
  \<^verbatim>\<open>startDrawingMode()\<close> asks for confirmation when a footprint exists (\<open>shouldReplace\<close>
  is the answer) and leaves the stored polygon in place; \<^verbatim>\<open>resetState()\<close> clears
  everything, the interaction centre included.
\<close>

definition startDrawingMode :: "floorplan_state \<Rightarrow> bool \<Rightarrow> floorplan_state" where
  "startDrawingMode st shouldReplace =
     (if geojsonPolygon st \<noteq> None \<and> \<not> shouldReplace then st
      else st \<lparr> isDrawing := True, drawingPoints := [] \<rparr>)"

definition resetState :: "floorplan_state \<Rightarrow> floorplan_state" where
  "resetState st =
     st \<lparr> geojsonPolygon := None, isDrawing := False, drawingPoints := [],
          rotation := 0, scale := 1, rotationCenter := None \<rparr>"

definition stopDrawingMode :: "floorplan_state \<Rightarrow> floorplan_state" where
  "stopDrawingMode st = st \<lparr> isDrawing := False, drawingPoints := [] \<rparr>"

definition finishDrawing :: "floorplan_state \<Rightarrow> floorplan_state" where
  "finishDrawing st =
     (if length (drawingPoints st) < 3 then st
      else let closedPoints = drawingPoints st;
               firstPoint = closedPoints ! 0;
               lastPoint = closedPoints ! (length closedPoints - 1);
               closedPoints' =
                 (if coord firstPoint 0 \<noteq> coord lastPoint 0 \<or> coord firstPoint 1 \<noteq> coord lastPoint 1
                  then closedPoints @ [[firstPoint ! 0, firstPoint ! 1]]
                  else closedPoints)
           in stopDrawingMode (st \<lparr> geojsonPolygon := Some closedPoints' \<rparr>))"

text \<open>
  \<^verbatim>\<open>getPolygonCenter\<close> averages all positions but the closing one; \<^verbatim>\<open>startRotation\<close>
  and \<^verbatim>\<open>startScaling\<close> store it as the centre of the interaction.  Reading the ring of a
  \<^verbatim>\<open>null\<close> polygon is a TypeError.
\<close>

definition getPolygonCenter :: "point list \<Rightarrow> lngLat" where
  "getPolygonCenter coords =
     (let count = real (length coords) - 1;
          center = foldl (\<lambda>acc c. \<lparr> lng = lng acc + c ! 0, lat = lat acc + c ! 1 \<rparr>)
                     \<lparr> lng = 0, lat = 0 \<rparr> (take (length coords - 1) coords)
      in \<lparr> lng = lng center / count, lat = lat center / count \<rparr>)"

definition startRotation :: "floorplan_state \<Rightarrow> js_error + floorplan_state" where
  "startRotation st =
     (case geojsonPolygon st of
        None \<Rightarrow> Inl TypeError
      | Some coords \<Rightarrow> Inr (st \<lparr> rotationCenter := Some (getPolygonCenter coords) \<rparr>))"

definition translatePolygon :: "floorplan_state \<Rightarrow> real \<Rightarrow> real \<Rightarrow> js_error + floorplan_state" where
  "translatePolygon st deltaLng deltaLat =
     (case geojsonPolygon st of
        None \<Rightarrow> Inl TypeError
      | Some coords \<Rightarrow>
          Inr (st \<lparr> geojsonPolygon :=
                 Some (map (\<lambda>c. [c ! 0 + deltaLng, c ! 1 + deltaLat]) coords) \<rparr>))"

text \<open>
  \<^verbatim>\<open>rotatePolygon\<close> and \<^verbatim>\<open>scalePolygon\<close> read the centre inside the callback of
  \<^verbatim>\<open>map\<close>: a \<^verbatim>\<open>null\<close> centre is a TypeError as soon as the ring has a position.
\<close>

definition rotatePolygon :: "floorplan_state \<Rightarrow> real \<Rightarrow> js_error + floorplan_state" where
  "rotatePolygon st rotationDelta =
     (case geojsonPolygon st of
        None \<Rightarrow> Inl TypeError
      | Some coords \<Rightarrow>
          (case rotationCenter st of
             None \<Rightarrow>
               if coords = []
               then Inr (st \<lparr> geojsonPolygon := Some [], rotation := rotation st + rotationDelta \<rparr>)
               else Inl TypeError
           | Some center \<Rightarrow>
               Inr (st \<lparr> geojsonPolygon :=
                      Some (map (\<lambda>c.
                        let x = c ! 0 - lng center;
                            y = c ! 1 - lat center;
                            rotatedX = x * cos rotationDelta - y * sin rotationDelta;
                            rotatedY = x * sin rotationDelta + y * cos rotationDelta
                        in [rotatedX + lng center, rotatedY + lat center]) coords),
                    rotation := rotation st + rotationDelta \<rparr>)))"

definition scalePolygon :: "floorplan_state \<Rightarrow> real \<Rightarrow> js_error + floorplan_state" where
  "scalePolygon st scaleFactor =
     (case geojsonPolygon st of
        None \<Rightarrow> Inl TypeError
      | Some coords \<Rightarrow>
          (case rotationCenter st of
             None \<Rightarrow>
               if coords = []
               then Inr (st \<lparr> geojsonPolygon := Some [], scale := scale st * scaleFactor \<rparr>)
               else Inl TypeError
           | Some center \<Rightarrow>
               Inr (st \<lparr> geojsonPolygon :=
                      Some (map (\<lambda>c.
                        let x = (c ! 0 - lng center) * scaleFactor;
                            y = (c ! 1 - lat center) * scaleFactor
                        in [x + lng center, y + lat center]) coords),
                    scale := scale st * scaleFactor \<rparr>)))"

text \<open>
  A ring is closed when its first and last positions agree in both coordinates.  The
  operations on the footprint, as a user session issues them; an operation that throws
  leaves the state as it was.
\<close>

definition ring_closed :: "point list \<Rightarrow> bool" where
  "ring_closed ring \<longleftrightarrow>
     ring \<noteq> [] \<and> coord (hd ring) 0 = coord (last ring) 0 \<and> coord (hd ring) 1 = coord (last ring) 1"

datatype fp_op =
    StartDrawingMode bool
  | StopDrawingMode
  | ResetState
  | AddDrawingPoint lngLat
  | FinishDrawing
  | StartRotation
  | TranslatePolygon real real
  | RotatePolygon real
  | ScalePolygon real

fun apply_fp_op :: "floorplan_state \<Rightarrow> fp_op \<Rightarrow> floorplan_state" where
  "apply_fp_op st (StartDrawingMode shouldReplace) = startDrawingMode st shouldReplace"
| "apply_fp_op st StopDrawingMode = stopDrawingMode st"
| "apply_fp_op st ResetState = resetState st"
| "apply_fp_op st (AddDrawingPoint p) = addDrawingPoint st p"
| "apply_fp_op st FinishDrawing = finishDrawing st"
| "apply_fp_op st StartRotation = (case startRotation st of Inl _ \<Rightarrow> st | Inr st' \<Rightarrow> st')"
| "apply_fp_op st (TranslatePolygon dx dy) =
     (case translatePolygon st dx dy of Inl _ \<Rightarrow> st | Inr st' \<Rightarrow> st')"
| "apply_fp_op st (RotatePolygon r) = (case rotatePolygon st r of Inl _ \<Rightarrow> st | Inr st' \<Rightarrow> st')"
| "apply_fp_op st (ScalePolygon f) = (case scalePolygon st f of Inl _ \<Rightarrow> st | Inr st' \<Rightarrow> st')"

definition initial_floorplan_state :: floorplan_state where
  "initial_floorplan_state =
     \<lparr> geojsonPolygon = None, isDrawing = False, drawingPoints = [],
       rotation = 0, scale = 1, rotationCenter = None \<rparr>"

section \<open>SiteInspectorCore: preview requests\<close>

text \<open>
  \<^verbatim>\<open>handleBuildableAreaPreview\<close> is asynchronous: it runs up to its \<^verbatim>\<open>fetch\<close> when the
  preview event arrives and resumes when the response does.  The state below is what
  these two halves share.  Every \<^verbatim>\<open>AbortController\<close> the handler creates gets the next
  number; \<open>in_flight\<close> lists the controllers whose request is still awaited; \<open>displayed\<close> is
  the result \<^verbatim>\<open>updateBuildableAreaDisplay(result, true)\<close> last drew, with the controller of
  the request that delivered it.
\<close>

record preview_state =
  previewAbortController :: "nat option"
  in_flight :: "nat list"
  displayed :: "(nat \<times> point list) option"
  issued :: nat

datatype preview_event =
    Preview "point list option"
  | Response nat bool "point list"
  | Failure nat

text \<open>
  \<open>Preview sitePolygon\<close>: a \<^verbatim>\<open>preview-buildable-area\<close> event; without a site polygon the
  handler returns before it touches the controller.  Otherwise it calls \<^verbatim>\<open>abort()\<close> on
  the stored controller, stores a fresh one and passes its signal to \<^verbatim>\<open>fetch\<close>.  An
  aborted request rejects with an \<^verbatim>\<open>AbortError\<close>, which the handler's catch block drops:
  the request is no longer awaited.
  \<open>Response c ok coords\<close>: the response of the request of controller \<open>c\<close> arrives, with
  its status and the \<^verbatim>\<open>buildable_coords\<close> of its body; it resumes the handler only if
  that request is still awaited.  \<open>Failure c\<close>: the request fails otherwise.
\<close>

fun preview_step :: "preview_state \<Rightarrow> preview_event \<Rightarrow> preview_state" where
  "preview_step st (Preview sitePolygon) =
     (case sitePolygon of
        None \<Rightarrow> st
      | Some siteCoords \<Rightarrow>
          (let awaited = (case previewAbortController st of
                            None \<Rightarrow> in_flight st
                          | Some c \<Rightarrow> removeAll c (in_flight st))
           in st \<lparr> previewAbortController := Some (issued st),
                   in_flight := awaited @ [issued st],
                   issued := Suc (issued st) \<rparr>))"
| "preview_step st (Response c ok coords) =
     (if c \<notin> set (in_flight st) then st
      else if \<not> ok then st \<lparr> in_flight := removeAll c (in_flight st) \<rparr>
      else if coords \<noteq> []
           then st \<lparr> in_flight := removeAll c (in_flight st), displayed := Some (c, coords) \<rparr>
           else st \<lparr> in_flight := removeAll c (in_flight st) \<rparr>)"
| "preview_step st (Failure c) = st \<lparr> in_flight := removeAll c (in_flight st) \<rparr>"

definition initial_preview_state :: preview_state where
  "initial_preview_state =
     \<lparr> previewAbortController = None, in_flight = [], displayed = None, issued = 0 \<rparr>"

section \<open>Invariants and example data\<close>

text \<open>
  The selection the click handler maintains: a back edge is only ever present together
  with a front edge of another index.
\<close>

definition selection_ok :: "setbacks_state \<Rightarrow> bool" where
  "selection_ok st =
     (case selectedBack st of
        None \<Rightarrow> True
      | Some b \<Rightarrow> (case selectedFront st of None \<Rightarrow> False | Some f \<Rightarrow> index f \<noteq> index b))"

text \<open>The edges of the triangular site \<open>[[0, 0], [1, 0], [0, 1]]\<close>, used in examples.\<close>

definition tri_edges :: "edge list" where
  "tri_edges =
     [\<lparr>index = 0, start = [0, 0], endp = [1, 0], midpoint = [1 / 2, 0]\<rparr>,
      \<lparr>index = 1, start = [1, 0], endp = [0, 1], midpoint = [1 / 2, 1 / 2]\<rparr>,
      \<lparr>index = 2, start = [0, 1], endp = [0, 0], midpoint = [0, 1 / 2]\<rparr>]"

text \<open>
  A square site with an explicit closing point, used in examples: its ring, the site data
  that holds the ring the way the inspector core stores it, and site data that holds it as
  objects with \<^verbatim>\<open>lng\<close> and \<^verbatim>\<open>lat\<close>.  A footprint state in drawing mode with no point yet.
\<close>

definition square_ring :: "point list" where
  "square_ring = [[0, 0], [0, 1], [1, 1], [1, 0], [0, 0]]"

definition square_as_stored :: site_data where
  "square_as_stored = \<lparr> sd_coordinates = Some (map Position square_ring) \<rparr>"

definition square_as_objects :: site_data where
  "square_as_objects =
     \<lparr> sd_coordinates = Some (map (\<lambda>p. LngLatObject \<lparr> lng = p ! 0, lat = p ! 1 \<rparr>) square_ring) \<rparr>"

definition drawing_started :: floorplan_state where
  "drawing_started =
     \<lparr> geojsonPolygon = None, isDrawing = True, drawingPoints = [],
       rotation = 0, scale = 1, rotationCenter = None \<rparr>"

text \<open>
  The invariant of the footprint state: tracked points have two coordinates, and a stored
  ring is closed and made of such points.
\<close>

definition fp_inv :: "floorplan_state \<Rightarrow> bool" where
  "fp_inv st \<longleftrightarrow>
     (\<forall>p \<in> set (drawingPoints st). wf_point p)
     \<and> (case geojsonPolygon st of
          None \<Rightarrow> True
        | Some ring \<Rightarrow> ring_closed ring \<and> (\<forall>p \<in> set ring. wf_point p))"

text \<open>Footprint states used in examples: a triangle being drawn, and the same triangle placed.\<close>

definition drawn_triangle :: floorplan_state where
  "drawn_triangle =
     \<lparr> geojsonPolygon = None, isDrawing = True, drawingPoints = [[0, 0], [1, 0], [0, 1]],
       rotation = 0, scale = 1, rotationCenter = None \<rparr>"

definition placed_triangle :: floorplan_state where
  "placed_triangle =
     \<lparr> geojsonPolygon = Some [[0, 0], [1, 0], [0, 1], [0, 0]], isDrawing = False,
       drawingPoints = [], rotation = 0, scale = 1,
       rotationCenter = Some \<lparr> lng = 1 / 3, lat = 1 / 3 \<rparr> \<rparr>"

text \<open>
  The single-quote-delimited variant of a text: every double quote written as a single
  quote.
\<close>

definition to_single_quotes :: "string \<Rightarrow> string" where
  "to_single_quotes t = map (\<lambda>c. if c = CHR 0x22 then CHR 0x27 else c) t"

text \<open>
  For examples: the JSON text \<^verbatim>\<open>{"a":1}\<close> and a parser that accepts exactly this text.
\<close>

definition sample_json :: string where
  "sample_json = [CHR ''{'', CHR 0x22, CHR ''a'', CHR 0x22, CHR '':'', CHR ''1'', CHR ''}'']"

definition sample_parse :: "string \<Rightarrow> nat option" where
  "sample_parse s = (if s = sample_json then Some 1 else None)"

text \<open>The triangular site with its first edge chosen as front and its last as back.\<close>

definition tri_selected :: setbacks_state where
  "tri_selected =
     \<lparr> polygonEdges = tri_edges, selectedFront = Some (tri_edges ! 0),
       selectedBack = Some (tri_edges ! 2), isEdgeSelectionMode = False \<rparr>"

text \<open>
  The invariant of the preview state: only the request of the stored controller can be
  awaited, and that controller is the one created last.
\<close>

definition preview_inv :: "preview_state \<Rightarrow> bool" where
  "preview_inv st \<longleftrightarrow>
     (case previewAbortController st of
        None \<Rightarrow> in_flight st = [] \<and> issued st = 0
      | Some c \<Rightarrow> Suc c = issued st \<and> (in_flight st = [] \<or> in_flight st = [c]))"

section \<open>Edge extraction: one edge per vertex\<close>

lemma edges_loop_wf:
  assumes "\<forall>p \<in> set cs. wf_point p" and "i \<le> length cs"
  shows "edges_loop cs i acc = acc @ map (make_edge cs) [i..<length cs]"
  using assms
proof (induction cs i acc rule: edges_loop.induct)
  case (1 cs i edges)
  show ?case
  proof (cases "i < length cs")
    case False
    then show ?thesis by (simp add: edges_loop.simps [of cs i edges])
  next
    case True
    then have m: "(i + 1) mod length cs < length cs"
      by (intro mod_less_divisor) auto
    have ws: "2 \<le> length (cs ! i)"
      using True "1.prems"(1) by (simp add: wf_point_def)
    have we: "2 \<le> length (cs ! ((i + 1) mod length cs))"
      using m "1.prems"(1) nth_mem [OF m] by (simp add: wf_point_def)
    have "edges_loop cs i edges = edges_loop cs (Suc i) (edges @ [make_edge cs i])"
      using True ws we by (simp add: edges_loop.simps [of cs i edges])
    also have "\<dots> = (edges @ [make_edge cs i]) @ map (make_edge cs) [Suc i..<length cs]"
      using "1.IH"(1) [OF True refl refl] ws we True "1.prems"(1) by simp
    also have "\<dots> = edges @ map (make_edge cs) [i..<length cs]"
      using True by (simp add: upt_conv_Cons)
    finally show ?thesis .
  qed
qed

lemma coordsToProcess_open:
  assumes "3 \<le> length vs" and "\<forall>p \<in> set vs. wf_point p" and "distinct (map lnglat vs)"
  shows "coordsToProcess vs = vs"
proof (cases "length vs > 3")
  case False
  then show ?thesis by (simp add: coordsToProcess_def)
next
  case True
  let ?n = "length vs - 1"
  let ?a = "vs ! 0" and ?b = "vs ! ?n"
  have i0: "0 < length vs" and i1: "?n < length vs" and neq: "0 \<noteq> ?n"
    using True by linarith+
  have wa: "wf_point ?a" and wb: "wf_point ?b"
    using assms(2) nth_mem [OF i0] nth_mem [OF i1] by blast+
  have "lnglat ?a \<noteq> lnglat ?b"
  proof
    assume eq: "lnglat ?a = lnglat ?b"
    have "map lnglat vs ! 0 = map lnglat vs ! ?n"
      using eq nth_map [OF i0, of lnglat] nth_map [OF i1, of lnglat] by simp
    moreover have "0 < length (map lnglat vs)" "?n < length (map lnglat vs)"
      using i0 i1 by simp_all
    ultimately have "0 = ?n"
      using assms(3) nth_eq_iff_index_eq by blast
    then show False using neq by simp
  qed
  then have "\<not> (coord ?a 0 = coord ?b 0 \<and> coord ?a 1 = coord ?b 1)"
    using wa wb by (auto simp add: coord_def lnglat_def wf_point_def)
  then show ?thesis by (auto simp add: coordsToProcess_def)
qed

lemma coordsToProcess_closed:
  assumes "3 \<le> length vs"
  shows "coordsToProcess (vs @ [hd vs]) = vs"
proof -
  have "vs \<noteq> []" using assms by auto
  then have "(vs @ [hd vs]) ! 0 = hd vs"
    by (simp add: nth_append hd_conv_nth)
  moreover have "(vs @ [hd vs]) ! (length (vs @ [hd vs]) - 1) = hd vs"
    by simp
  ultimately show ?thesis
    using assms by (simp add: coordsToProcess_def del: nth_append_length)
qed

text \<open>
  C1.  For a ring \<open>vs\<close> of at least three vertices that are pairwise distinct in
  (lng, lat), supplied either open (\<open>vs\<close>) or with an explicit closing point equal to the
  first vertex (\<open>vs @ [hd vs]\<close>), \<open>calculatePolygonEdges\<close> returns exactly one edge per
  vertex of the de-duplicated ring: the edge at position \<open>i\<close> carries index \<open>i\<close>, starts
  at vertex \<open>i\<close>, and ends where edge \<open>(i + 1) mod n\<close> starts.
\<close>

theorem calculatePolygonEdges_ring:
  assumes "3 \<le> length vs"
    and "\<forall>p \<in> set vs. wf_point p"
    and "distinct (map lnglat vs)"
    and "coordinates = vs \<or> coordinates = vs @ [hd vs]"
  shows "length (calculatePolygonEdges (Some coordinates)) = length vs
       \<and> (\<forall>i < length vs.
            index (calculatePolygonEdges (Some coordinates) ! i) = i
          \<and> start (calculatePolygonEdges (Some coordinates) ! i) = vs ! i
          \<and> endp (calculatePolygonEdges (Some coordinates) ! i)
              = start (calculatePolygonEdges (Some coordinates) ! ((i + 1) mod length vs)))"
proof -
  have ctp: "coordsToProcess coordinates = vs"
    using assms coordsToProcess_open coordsToProcess_closed by blast
  have len: "\<not> length coordinates < 3"
    using assms(1,4) by auto
  have es: "calculatePolygonEdges (Some coordinates) = map (make_edge vs) [0..<length vs]"
    using len ctp edges_loop_wf [of vs 0 "[]"] assms(2)
    by (simp add: calculatePolygonEdges_def)
  have m: "\<And>i. i < length vs \<Longrightarrow> (i + 1) mod length vs < length vs"
    by (intro mod_less_divisor) auto
  show ?thesis
    unfolding es using m by (simp add: make_edge_def Let_def)
qed

theorem calculatePolygonEdges_ring_witness:
  "length (calculatePolygonEdges (Some [[0, 0], [0, 1], [1, 1], [1, 0], [0, 0]])) = 4
   \<and> index (calculatePolygonEdges (Some [[0, 0], [0, 1], [1, 1], [1, 0], [0, 0]]) ! 3) = 3
   \<and> start (calculatePolygonEdges (Some [[0, 0], [0, 1], [1, 1], [1, 0], [0, 0]]) ! 3) = [1, 0]
   \<and> endp (calculatePolygonEdges (Some [[0, 0], [0, 1], [1, 1], [1, 0], [0, 0]]) ! 3)
       = start (calculatePolygonEdges (Some [[0, 0], [0, 1], [1, 1], [1, 0], [0, 0]]) ! 0)"
proof -
  let ?vs = "[[0, 0], [0, 1], [1, 1], [1, 0]] :: point list"
  have r: "length (calculatePolygonEdges (Some (?vs @ [hd ?vs]))) = length ?vs
       \<and> (\<forall>i < length ?vs.
            index (calculatePolygonEdges (Some (?vs @ [hd ?vs])) ! i) = i
          \<and> start (calculatePolygonEdges (Some (?vs @ [hd ?vs])) ! i) = ?vs ! i
          \<and> endp (calculatePolygonEdges (Some (?vs @ [hd ?vs])) ! i)
              = start (calculatePolygonEdges (Some (?vs @ [hd ?vs])) ! ((i + 1) mod length ?vs)))"
    by (rule calculatePolygonEdges_ring) (simp_all add: wf_point_def lnglat_def)
  have "(3::nat) < length ?vs" by simp
  with r show ?thesis by fastforce
qed

section \<open>Degenerate rings\<close>

text \<open>
  C8.  When the coordinates argument is \<^verbatim>\<open>null\<close>/\<^verbatim>\<open>undefined\<close> or holds fewer than three
  points, \<open>calculatePolygonArea\<close> (whatever the turf library would do),
  \<open>calculatePolygonAreaFallback\<close> and \<open>calculatePolygonPerimeter\<close> return 0.  The guard
  returns before any coordinate is read and before turf is called, so nothing can throw.
\<close>

theorem degenerate_ring_zero:
  assumes "coordinates = None \<or> (\<exists>cs. coordinates = Some cs \<and> length cs < 3)"
  shows "calculatePolygonArea turf coordinates = 0
       \<and> calculatePolygonAreaFallback coordinates = 0
       \<and> calculatePolygonPerimeter coordinates = 0"
  using assms
  by (auto simp add: calculatePolygonArea_def calculatePolygonAreaFallback_def
        calculatePolygonPerimeter_def)

theorem degenerate_ring_zero_witness:
  "calculatePolygonArea (\<lambda>cs. None) (Some [[0, 0], [1, 1]]) = 0
   \<and> calculatePolygonAreaFallback (Some [[0, 0], [1, 1]]) = 0
   \<and> calculatePolygonPerimeter (Some [[0, 0], [1, 1]]) = 0"
  using degenerate_ring_zero [of "Some [[0, 0], [1, 1]]" "\<lambda>cs. None"]
  by simp

section \<open>Edge selection by clicks\<close>

lemma handleEdgeSelection_ok:
  "selection_ok st \<Longrightarrow> selection_ok (handleEdgeSelection st ev)"
  by (auto simp add: handleEdgeSelection_def selection_ok_def exitEdgeSelectionMode_def
        split: option.splits)

lemma foldl_handleEdgeSelection_ok:
  "selection_ok st \<Longrightarrow> selection_ok (foldl handleEdgeSelection st evs)"
  by (induction evs arbitrary: st) (simp_all add: handleEdgeSelection_ok)

lemma selection_ok_distinct: "selection_ok st \<Longrightarrow> distinct_selection st"
  by (auto simp add: selection_ok_def distinct_selection_def split: option.splits)

text \<open>
  C2.  In edge-selection mode, for a click that resolves to the edge \<open>sel\<close>: with no
  front edge yet, \<open>sel\<close> becomes the front edge and nothing else changes; with a front
  edge of the same index, the click changes nothing (in particular it never sets the back
  edge); with a front edge of another index and no back edge, \<open>sel\<close> becomes the back
  edge and selection mode is left.  Consequently, from a state without a back edge, after
  any sequence of click events a front and a back edge that are both set have distinct
  indices.
\<close>

theorem edge_selection_clicks:
  assumes "isEdgeSelectionMode st"
    and "findNearestEdge st [lng e, lat e] = Some sel"
  shows "(selectedFront st = None \<longrightarrow>
            handleEdgeSelection st (Some e) = st \<lparr> selectedFront := Some sel \<rparr>)
       \<and> (\<forall>f. selectedFront st = Some f \<and> index sel = index f \<longrightarrow>
            handleEdgeSelection st (Some e) = st)
       \<and> (\<forall>f. selectedFront st = Some f \<and> selectedBack st = None \<and> index sel \<noteq> index f \<longrightarrow>
            handleEdgeSelection st (Some e)
              = st \<lparr> selectedBack := Some sel, isEdgeSelectionMode := False \<rparr>)
       \<and> (selectedBack st = None \<longrightarrow>
            distinct_selection (foldl handleEdgeSelection st evs))"
proof -
  have "selectedBack st = None \<longrightarrow> distinct_selection (foldl handleEdgeSelection st evs)"
    using foldl_handleEdgeSelection_ok [of st evs] selection_ok_distinct
    by (auto simp add: selection_ok_def)
  then show ?thesis
    using assms by (auto simp add: handleEdgeSelection_def exitEdgeSelectionMode_def)
qed

lemma sqrt_less_pos: "0 < c \<Longrightarrow> sqrt x < c \<longleftrightarrow> x < c\<^sup>2"
  by (metis real_sqrt_less_iff real_sqrt_abs abs_of_pos)

lemma tri_edges_eq: "calculatePolygonEdges (Some [[0, 0], [1, 0], [0, 1]]) = tri_edges"
  by (simp add: calculatePolygonEdges_def coordsToProcess_def edges_loop.simps make_edge_def
        tri_edges_def)

lemma nearest_on_edge0:
  "findNearestEdge \<lparr> polygonEdges = tri_edges, selectedFront = f, selectedBack = b,
       isEdgeSelectionMode = m \<rparr> [1 / 2, 0] = Some (tri_edges ! 0)"
  by (simp add: findNearestEdge_def nearest_step_def distanceToLineSegment_def Let_def
        tri_edges_def sqrt_less_pos)

lemma nearest_on_edge2:
  "findNearestEdge \<lparr> polygonEdges = tri_edges, selectedFront = f, selectedBack = b,
       isEdgeSelectionMode = m \<rparr> [0, 1 / 2] = Some (tri_edges ! 2)"
  by (simp add: findNearestEdge_def nearest_step_def distanceToLineSegment_def Let_def
        tri_edges_def sqrt_less_pos)

theorem edge_selection_clicks_witness:
  "handleEdgeSelection
     \<lparr> polygonEdges = tri_edges, selectedFront = None, selectedBack = None,
       isEdgeSelectionMode = True \<rparr> (Some \<lparr> lng = 1 / 2, lat = 0 \<rparr>)
     = \<lparr> polygonEdges = tri_edges, selectedFront = Some (tri_edges ! 0), selectedBack = None,
         isEdgeSelectionMode = True \<rparr>
   \<and> handleEdgeSelection
     \<lparr> polygonEdges = tri_edges, selectedFront = Some (tri_edges ! 0), selectedBack = None,
       isEdgeSelectionMode = True \<rparr> (Some \<lparr> lng = 1 / 2, lat = 0 \<rparr>)
     = \<lparr> polygonEdges = tri_edges, selectedFront = Some (tri_edges ! 0), selectedBack = None,
         isEdgeSelectionMode = True \<rparr>
   \<and> handleEdgeSelection
     \<lparr> polygonEdges = tri_edges, selectedFront = Some (tri_edges ! 0), selectedBack = None,
       isEdgeSelectionMode = True \<rparr> (Some \<lparr> lng = 0, lat = 1 / 2 \<rparr>)
     = \<lparr> polygonEdges = tri_edges, selectedFront = Some (tri_edges ! 0),
         selectedBack = Some (tri_edges ! 2), isEdgeSelectionMode = False \<rparr>
   \<and> distinct_selection (foldl handleEdgeSelection
       \<lparr> polygonEdges = tri_edges, selectedFront = None, selectedBack = None,
         isEdgeSelectionMode = True \<rparr>
       [Some \<lparr> lng = 1 / 2, lat = 0 \<rparr>, Some \<lparr> lng = 1 / 2, lat = 0 \<rparr>,
        Some \<lparr> lng = 0, lat = 1 / 2 \<rparr>])"
proof -
  let ?s0 = "\<lparr> polygonEdges = tri_edges, selectedFront = None, selectedBack = None,
       isEdgeSelectionMode = True \<rparr>"
  let ?s1 = "\<lparr> polygonEdges = tri_edges, selectedFront = Some (tri_edges ! 0),
       selectedBack = None, isEdgeSelectionMode = True \<rparr>"
  let ?c0 = "\<lparr> lng = 1 / 2, lat = 0 \<rparr>" and ?c2 = "\<lparr> lng = 0, lat = 1 / 2 \<rparr>"
  let ?evs = "[Some ?c0, Some ?c0, Some ?c2]"
  have a: "findNearestEdge ?s0 [lng ?c0, lat ?c0] = Some (tri_edges ! 0)"
    and b: "findNearestEdge ?s1 [lng ?c0, lat ?c0] = Some (tri_edges ! 0)"
    and c: "findNearestEdge ?s1 [lng ?c2, lat ?c2] = Some (tri_edges ! 2)"
    using nearest_on_edge0 nearest_on_edge2 by simp_all
  have i: "index (tri_edges ! 2) \<noteq> index (tri_edges ! 0)"
    by (simp add: tri_edges_def)
  show ?thesis
    using edge_selection_clicks [OF _ a, of ?evs] edge_selection_clicks [OF _ b, of "[]"]
      edge_selection_clicks [OF _ c, of "[]"] i
    by (simp add: distinct_selection_def)
qed

section \<open>Duplicate clicks while drawing\<close>

lemma rounded_small:
  assumes mono: "\<And>x y :: real. x \<le> y \<Longrightarrow> rnd x \<le> rnd y"
    and "rnd t = t" and "rnd (- t) = - t" and "\<bar>d\<bar> \<le> t"
  shows "\<bar>rnd d\<bar> \<le> t"
proof -
  have "- t \<le> d" and "d \<le> t" using assms(4) by linarith+
  then have "rnd (- t) \<le> rnd d" and "rnd d \<le> rnd t" using mono by blast+
  then show ?thesis using assms(2,3) by linarith
qed

lemma rounded_large:
  assumes mono: "\<And>x y :: real. x \<le> y \<Longrightarrow> rnd x \<le> rnd y"
    and "rnd T = T" and "rnd (- T) = - T" and "T \<le> \<bar>d\<bar>"
  shows "T \<le> \<bar>rnd d\<bar>"
proof (cases "T \<le> d")
  case True
  then have "rnd T \<le> rnd d" using mono by blast
  then show ?thesis using assms(2) by linarith
next
  case False
  then have "d \<le> - T" using assms(4) by linarith
  then have "rnd d \<le> rnd (- T)" using mono by blast
  then show ?thesis using assms(3) by linarith
qed

text \<open>
  C6 (amended).  While the boundary is drawn (draw mode \<^verbatim>\<open>draw_polygon\<close>), a click leaves
  the tracked points unchanged exactly when the differences of its longitude and latitude
  from the last tracked point's, each rounded to a double, are smaller in absolute value
  than the double \<^verbatim>\<open>0.000001\<close>; any other click is appended.  For a rounding that is
  monotone and keeps that double and its negative: a click within \<open>t\<close> of the last point
  in both coordinates, for a double \<open>t\<close> below the threshold, is dropped, and a click at
  least the threshold away in one coordinate is appended, as is the first click.
\<close>

theorem boundary_click_dedup:
  assumes mono: "\<And>x y :: real. x \<le> y \<Longrightarrow> rnd x \<le> rnd y"
    and fixT: "rnd double_0_000001 = double_0_000001"
    and fixT': "rnd (- double_0_000001) = - double_0_000001"
  shows "SiteBoundaryManager_handleMapClick rnd ''draw_polygon'' pts e
           = (if pts \<noteq> [] \<and> wf_point (last pts)
                 \<and> \<bar>rnd (last pts ! 0 - lng e)\<bar> < double_0_000001
                 \<and> \<bar>rnd (last pts ! 1 - lat e)\<bar> < double_0_000001
              then pts else pts @ [[lng e, lat e]])
       \<and> (\<forall>t. pts \<noteq> [] \<and> wf_point (last pts) \<and> rnd t = t \<and> rnd (- t) = - t
              \<and> t < double_0_000001
              \<and> \<bar>last pts ! 0 - lng e\<bar> \<le> t \<and> \<bar>last pts ! 1 - lat e\<bar> \<le> t
            \<longrightarrow> SiteBoundaryManager_handleMapClick rnd ''draw_polygon'' pts e = pts)
       \<and> (double_0_000001 \<le> \<bar>last pts ! 0 - lng e\<bar> \<or> double_0_000001 \<le> \<bar>last pts ! 1 - lat e\<bar>
            \<longrightarrow> SiteBoundaryManager_handleMapClick rnd ''draw_polygon'' pts e = pts @ [[lng e, lat e]])
       \<and> (pts = [] \<longrightarrow> SiteBoundaryManager_handleMapClick rnd ''draw_polygon'' pts e = [[lng e, lat e]])"
proof -
  let ?T = double_0_000001
  let ?r = "SiteBoundaryManager_handleMapClick rnd ''draw_polygon'' pts e"
  have a: "?r = (if pts \<noteq> [] \<and> wf_point (last pts)
                 \<and> \<bar>rnd (last pts ! 0 - lng e)\<bar> < ?T
                 \<and> \<bar>rnd (last pts ! 1 - lat e)\<bar> < ?T
              then pts else pts @ [[lng e, lat e]])"
    by (auto simp add: SiteBoundaryManager_handleMapClick_def Let_def coord_def wf_point_def
          split: option.splits if_splits)
  have b: "\<forall>t. pts \<noteq> [] \<and> wf_point (last pts) \<and> rnd t = t \<and> rnd (- t) = - t \<and> t < ?T
              \<and> \<bar>last pts ! 0 - lng e\<bar> \<le> t \<and> \<bar>last pts ! 1 - lat e\<bar> \<le> t
            \<longrightarrow> ?r = pts"
  proof (intro allI impI)
    fix t
    assume h: "pts \<noteq> [] \<and> wf_point (last pts) \<and> rnd t = t \<and> rnd (- t) = - t \<and> t < ?T
              \<and> \<bar>last pts ! 0 - lng e\<bar> \<le> t \<and> \<bar>last pts ! 1 - lat e\<bar> \<le> t"
    then have "\<bar>rnd (last pts ! 0 - lng e)\<bar> \<le> t" and "\<bar>rnd (last pts ! 1 - lat e)\<bar> \<le> t"
      using rounded_small [where rnd = rnd and t = t, OF mono] by blast+
    then have "\<bar>rnd (last pts ! 0 - lng e)\<bar> < ?T" and "\<bar>rnd (last pts ! 1 - lat e)\<bar> < ?T"
      using h by linarith+
    then show "?r = pts" using a h by simp
  qed
  have c: "?T \<le> \<bar>last pts ! 0 - lng e\<bar> \<or> ?T \<le> \<bar>last pts ! 1 - lat e\<bar>
            \<longrightarrow> ?r = pts @ [[lng e, lat e]]"
  proof
    assume "?T \<le> \<bar>last pts ! 0 - lng e\<bar> \<or> ?T \<le> \<bar>last pts ! 1 - lat e\<bar>"
    then have "?T \<le> \<bar>rnd (last pts ! 0 - lng e)\<bar> \<or> ?T \<le> \<bar>rnd (last pts ! 1 - lat e)\<bar>"
      using rounded_large [where rnd = rnd and T = double_0_000001, OF mono fixT fixT'] by blast
    then show "?r = pts @ [[lng e, lat e]]" using a by auto
  qed
  have d: "pts = [] \<longrightarrow> ?r = [[lng e, lat e]]"
    by (simp add: SiteBoundaryManager_handleMapClick_def)
  from a b c d show ?thesis by blast
qed

text \<open>
  At the clicks below the subtraction from \<open>0\<close> is exact, so the identity stands for the
  rounding: a click at the double nearest to \<open>1e-9\<close> is dropped, a click at the double
  \<^verbatim>\<open>0.000001\<close> itself is appended.
\<close>

theorem boundary_click_dedup_witness:
  "SiteBoundaryManager_handleMapClick (\<lambda>x. x) ''draw_polygon'' [[0, 0]]
       \<lparr> lng = 4835703278458517 / 2 ^ 82, lat = 0 \<rparr> = [[0, 0]]
   \<and> SiteBoundaryManager_handleMapClick (\<lambda>x. x) ''draw_polygon'' [[0, 0]]
       \<lparr> lng = double_0_000001, lat = 0 \<rparr> = [[0, 0], [double_0_000001, 0]]
   \<and> SiteBoundaryManager_handleMapClick (\<lambda>x. x) ''draw_polygon'' [] \<lparr> lng = 1, lat = 2 \<rparr> = [[1, 2]]"
proof -
  have lt: "(4835703278458517 / 2 ^ 82 :: real) < double_0_000001"
    by (simp add: double_0_000001_def)
  have pos: "(0 :: real) \<le> double_0_000001"
    by (simp add: double_0_000001_def)
  show ?thesis
    using boundary_click_dedup [of "\<lambda>x. x" "[[0, 0]]" "\<lparr> lng = 4835703278458517 / 2 ^ 82, lat = 0 \<rparr>",
        THEN conjunct2, THEN conjunct1, rule_format, of "4835703278458517 / 2 ^ 82"]
      boundary_click_dedup [of "\<lambda>x. x" "[[0, 0]]" "\<lparr> lng = double_0_000001, lat = 0 \<rparr>"]
      boundary_click_dedup [of "\<lambda>x. x" "[]" "\<lparr> lng = 1, lat = 2 \<rparr>"]
      lt pos
    by (simp add: wf_point_def)
qed

text \<open>
  The footprint's \<^verbatim>\<open>addDrawingPoint\<close> has no such check: a second click on the very same
  position is appended again.
\<close>

theorem footprint_duplicate_click_counterexample:
  "drawingPoints (FloorplanManager_handleMapClick None
      \<lparr> geojsonPolygon = None, isDrawing = True, drawingPoints = [[1, 2]],
        rotation = 0, scale = 1, rotationCenter = None \<rparr> \<lparr> lng = 1, lat = 2 \<rparr>)
     = [[1, 2], [1, 2]]
   \<and> drawingPoints (FloorplanManager_handleMapClick None
      \<lparr> geojsonPolygon = None, isDrawing = True, drawingPoints = [[1, 2]],
        rotation = 0, scale = 1, rotationCenter = None \<rparr> \<lparr> lng = 1, lat = 2 \<rparr>)
     \<noteq> [[1, 2]]"
  by (simp add: FloorplanManager_handleMapClick_def isPointWithinSiteBoundary_def
        addDrawingPoint_def)

section \<open>Containment of footprint points\<close>

text \<open>
  A polygon whose positions have no latitude (\<^verbatim>\<open>undefined\<close>) contains no point: every
  comparison of the loop is false.
\<close>

lemma undefined_polygon_rejects:
  assumes "\<forall>q \<in> set polygon. q ! 1 = None"
  shows "\<not> pointInPolygon pt polygon"
proof -
  have step: "\<not> fst (pip_step pt polygon acc i) \<and> snd (pip_step pt polygon acc i) = i"
    if "\<not> fst acc" and "snd acc < length polygon" and "i < length polygon" for acc i
  proof -
    have "polygon ! i ! 1 = None" and "polygon ! snd acc ! 1 = None"
      using assms that(2,3) by simp_all
    then show ?thesis using that(1) by (simp add: pip_step_def Let_def js_gt_def)
  qed
  have run: "\<not> fst (foldl (pip_step pt polygon) acc ns)"
    if "\<not> fst acc" and "snd acc < length polygon" and "\<forall>i \<in> set ns. i < length polygon"
    for acc ns
    using that
  proof (induction ns arbitrary: acc)
    case Nil
    then show ?case by simp
  next
    case (Cons n ns)
    from step [OF Cons.prems(1,2)] Cons.prems(3)
    have "\<not> fst (pip_step pt polygon acc n)" and "snd (pip_step pt polygon acc n) < length polygon"
      by simp_all
    then show ?case using Cons.IH Cons.prems(3) by simp
  qed
  show ?thesis
  proof (cases "polygon = []")
    case True
    then show ?thesis by (simp add: pointInPolygon_def)
  next
    case False
    then have "length polygon - 1 < length polygon" by simp
    then show ?thesis using run [of "(False, length polygon - 1)" "[0..<length polygon]"]
      by (simp add: pointInPolygon_def)
  qed
qed

text \<open>
  C7.  The containment check is not in force.  With \<^verbatim>\<open>window.siteInspector\<close> unassigned,
  as the source leaves it, a click outside the square site is appended to the drawing
  points.  With the site data holding the boundary as the inspector core stores it
  (\<^verbatim>\<open>[lng, lat]\<close> arrays), a click inside the square is rejected, as every click is.
\<close>

theorem footprint_containment_not_enforced:
  "FloorplanManager_handleMapClick None drawing_started \<lparr> lng = 2, lat = 1 / 2 \<rparr>
     = drawing_started \<lparr> drawingPoints := [[2, 1 / 2]] \<rparr>
   \<and> FloorplanManager_handleMapClick (Some square_as_stored) drawing_started
       \<lparr> lng = 1 / 2, lat = 1 / 2 \<rparr> = drawing_started"
  by (simp add: FloorplanManager_handleMapClick_def isPointWithinSiteBoundary_def
        addDrawingPoint_def drawing_started_def square_as_stored_def coord_lat_def
        undefined_polygon_rejects)

text \<open>
  Only for site data whose coordinates are objects with \<^verbatim>\<open>lng\<close> and \<^verbatim>\<open>lat\<close> does the
  handler decide by \<open>pointInPolygon\<close> over the boundary.
\<close>

lemma containment_with_objects:
  assumes "isDrawing st" and "sd_coordinates sd = Some (map LngLatObject coordinates)"
  shows "FloorplanManager_handleMapClick (Some sd) st p
           = (if pointInPolygon [lng p, lat p] (map (\<lambda>c. [Some (lng c), Some (lat c)]) coordinates)
              then st \<lparr> drawingPoints := drawingPoints st @ [[lng p, lat p]] \<rparr>
              else st)"
  using assms
  by (simp add: FloorplanManager_handleMapClick_def isPointWithinSiteBoundary_def
        addDrawingPoint_def coord_lng_def coord_lat_def comp_def)

lemma square_objects_inside_outside:
  "FloorplanManager_handleMapClick (Some square_as_objects) drawing_started
       \<lparr> lng = 1 / 2, lat = 1 / 2 \<rparr> = drawing_started \<lparr> drawingPoints := [[1 / 2, 1 / 2]] \<rparr>
   \<and> FloorplanManager_handleMapClick (Some square_as_objects) drawing_started
       \<lparr> lng = 2, lat = 1 / 2 \<rparr> = drawing_started"
  by (simp add: FloorplanManager_handleMapClick_def isPointWithinSiteBoundary_def
        addDrawingPoint_def drawing_started_def square_as_objects_def square_ring_def
        pointInPolygon_def pip_step_def js_gt_def js_lt_def crossing_def coord_lng_def
        coord_lat_def upt_conv_Cons Let_def)

section \<open>The footprint ring stays closed\<close>

lemma ring_closed_map:
  assumes "ring_closed ring" and "\<forall>p \<in> set ring. wf_point p"
    and "\<And>c. f c = [g (c ! 0) (c ! 1), h (c ! 0) (c ! 1)]"
  shows "ring_closed (map f ring) \<and> (\<forall>p \<in> set (map f ring). wf_point p)"
proof -
  have ne: "ring \<noteq> []" using assms(1) by (simp add: ring_closed_def)
  then have "wf_point (hd ring)" "wf_point (last ring)"
    using assms(2) by simp_all
  then have "hd ring ! 0 = last ring ! 0" "hd ring ! 1 = last ring ! 1"
    using assms(1) by (auto simp add: ring_closed_def coord_def wf_point_def split: if_splits)
  then have "f (hd ring) = f (last ring)"
    by (simp add: assms(3))
  then have "ring_closed (map f ring)"
    using ne by (simp add: ring_closed_def hd_map last_map)
  moreover have "\<forall>p \<in> set (map f ring). wf_point p"
    by (simp add: assms(3) wf_point_def)
  ultimately show ?thesis by simp
qed

lemma finishDrawing_closed:
  assumes "3 \<le> length (drawingPoints st)" and "\<forall>p \<in> set (drawingPoints st). wf_point p"
  shows "\<exists>ring. geojsonPolygon (finishDrawing st) = Some ring \<and> ring_closed ring
           \<and> (\<forall>p \<in> set ring. wf_point p)
           \<and> ring = (if ring_closed (drawingPoints st) then drawingPoints st
                     else drawingPoints st @ [[hd (drawingPoints st) ! 0, hd (drawingPoints st) ! 1]])"
proof -
  let ?pts = "drawingPoints st"
  have ne: "?pts \<noteq> []" using assms(1) by auto
  have h: "?pts ! 0 = hd ?pts" and l: "?pts ! (length ?pts - 1) = last ?pts"
    using ne by (simp_all add: hd_conv_nth last_conv_nth)
  have wh: "wf_point (hd ?pts)" using ne assms(2) by simp
  show ?thesis
  proof (cases "coord (hd ?pts) 0 \<noteq> coord (last ?pts) 0 \<or> coord (hd ?pts) 1 \<noteq> coord (last ?pts) 1")
    case True
    then have "geojsonPolygon (finishDrawing st) = Some (?pts @ [[hd ?pts ! 0, hd ?pts ! 1]])"
      using assms(1) h l by (simp add: finishDrawing_def stopDrawingMode_def Let_def)
    moreover have "ring_closed (?pts @ [[hd ?pts ! 0, hd ?pts ! 1]])"
      using ne wh by (auto simp add: ring_closed_def coord_def wf_point_def)
    moreover have "\<forall>p \<in> set (?pts @ [[hd ?pts ! 0, hd ?pts ! 1]]). wf_point p"
      using assms(2) by (auto simp add: wf_point_def)
    moreover have "\<not> ring_closed ?pts"
      using True by (auto simp add: ring_closed_def)
    ultimately show ?thesis by simp
  next
    case False
    then have "geojsonPolygon (finishDrawing st) = Some ?pts"
      using assms(1) h l by (simp add: finishDrawing_def stopDrawingMode_def Let_def)
    moreover have "ring_closed ?pts"
      using ne False by (simp add: ring_closed_def)
    ultimately show ?thesis using assms(2) by simp
  qed
qed

lemma translate_closed:
  assumes "geojsonPolygon st = Some ring" and "ring_closed ring" and "\<forall>p \<in> set ring. wf_point p"
  shows "\<exists>st' ring'. translatePolygon st dx dy = Inr st' \<and> geojsonPolygon st' = Some ring'
           \<and> drawingPoints st' = drawingPoints st
           \<and> ring_closed ring' \<and> (\<forall>p \<in> set ring'. wf_point p) \<and> length ring' = length ring"
  using assms ring_closed_map [OF assms(2,3), of "\<lambda>c. [c ! 0 + dx, c ! 1 + dy]" "\<lambda>a b. a + dx" "\<lambda>a b. b + dy"]
  by (simp add: translatePolygon_def)

lemma rotate_closed:
  assumes "geojsonPolygon st = Some ring" and "ring_closed ring" and "\<forall>p \<in> set ring. wf_point p"
    and "rotationCenter st = Some center"
  shows "\<exists>st' ring'. rotatePolygon st r = Inr st' \<and> geojsonPolygon st' = Some ring'
           \<and> drawingPoints st' = drawingPoints st
           \<and> ring_closed ring' \<and> (\<forall>p \<in> set ring'. wf_point p) \<and> length ring' = length ring"
  using assms ring_closed_map [OF assms(2,3),
      of "\<lambda>c. [(c ! 0 - lng center) * cos r - (c ! 1 - lat center) * sin r + lng center,
               (c ! 0 - lng center) * sin r + (c ! 1 - lat center) * cos r + lat center]"
         "\<lambda>a b. (a - lng center) * cos r - (b - lat center) * sin r + lng center"
         "\<lambda>a b. (a - lng center) * sin r + (b - lat center) * cos r + lat center"]
  by (simp add: rotatePolygon_def Let_def)

lemma scale_closed:
  assumes "geojsonPolygon st = Some ring" and "ring_closed ring" and "\<forall>p \<in> set ring. wf_point p"
    and "rotationCenter st = Some center"
  shows "\<exists>st' ring'. scalePolygon st f = Inr st' \<and> geojsonPolygon st' = Some ring'
           \<and> drawingPoints st' = drawingPoints st
           \<and> ring_closed ring' \<and> (\<forall>p \<in> set ring'. wf_point p) \<and> length ring' = length ring"
  using assms ring_closed_map [OF assms(2,3),
      of "\<lambda>c. [(c ! 0 - lng center) * f + lng center, (c ! 1 - lat center) * f + lat center]"
         "\<lambda>a b. (a - lng center) * f + lng center"
         "\<lambda>a b. (b - lat center) * f + lat center"]
  by (simp add: scalePolygon_def Let_def)

lemma apply_fp_op_inv: "fp_inv st \<Longrightarrow> fp_inv (apply_fp_op st op)"
proof (cases op)
  case (StartDrawingMode shouldReplace)
  assume "fp_inv st"
  then show ?thesis using StartDrawingMode
    by (auto simp add: fp_inv_def startDrawingMode_def split: option.splits)
next
  case StopDrawingMode
  assume "fp_inv st"
  then show ?thesis using StopDrawingMode
    by (auto simp add: fp_inv_def stopDrawingMode_def split: option.splits)
next
  case ResetState
  assume "fp_inv st"
  then show ?thesis using ResetState
    by (simp add: fp_inv_def resetState_def)
next
  case (AddDrawingPoint p)
  assume "fp_inv st"
  then show ?thesis using AddDrawingPoint
    by (auto simp add: fp_inv_def addDrawingPoint_def wf_point_def split: option.splits)
next
  case FinishDrawing
  assume i: "fp_inv st"
  show ?thesis
  proof (cases "length (drawingPoints st) < 3")
    case True
    then show ?thesis using i FinishDrawing by (simp add: finishDrawing_def)
  next
    case False
    then have "3 \<le> length (drawingPoints st)" by simp
    from finishDrawing_closed [OF this] i
    obtain ring where "geojsonPolygon (finishDrawing st) = Some ring" "ring_closed ring"
      "\<forall>p \<in> set ring. wf_point p"
      by (auto simp add: fp_inv_def)
    moreover have "drawingPoints (finishDrawing st) = []"
      using False by (simp add: finishDrawing_def stopDrawingMode_def Let_def)
    ultimately show ?thesis using FinishDrawing by (simp add: fp_inv_def)
  qed
next
  case StartRotation
  assume "fp_inv st"
  then show ?thesis using StartRotation
    by (auto simp add: fp_inv_def startRotation_def split: option.splits)
next
  case (TranslatePolygon dx dy)
  assume i: "fp_inv st"
  show ?thesis
  proof (cases "geojsonPolygon st")
    case None
    then show ?thesis using i TranslatePolygon by (simp add: translatePolygon_def)
  next
    case (Some ring)
    with i have "ring_closed ring" "\<forall>p \<in> set ring. wf_point p" by (simp_all add: fp_inv_def)
    from translate_closed [OF Some this, of dx dy] i show ?thesis
      using TranslatePolygon by (auto simp add: fp_inv_def)
  qed
next
  case (RotatePolygon r)
  assume i: "fp_inv st"
  show ?thesis
  proof (cases "geojsonPolygon st")
    case None
    then show ?thesis using i RotatePolygon by (simp add: rotatePolygon_def)
  next
    case (Some ring)
    with i have c: "ring_closed ring" "\<forall>p \<in> set ring. wf_point p" by (simp_all add: fp_inv_def)
    show ?thesis
    proof (cases "rotationCenter st")
      case None
      then have "apply_fp_op st op = st"
        using Some c(1) RotatePolygon by (simp add: rotatePolygon_def ring_closed_def)
      then show ?thesis using i by simp
    next
      case (Some center)
      from rotate_closed [OF \<open>geojsonPolygon st = Some ring\<close> c Some, of r] i show ?thesis
        using RotatePolygon by (auto simp add: fp_inv_def)
    qed
  qed
next
  case (ScalePolygon f)
  assume i: "fp_inv st"
  show ?thesis
  proof (cases "geojsonPolygon st")
    case None
    then show ?thesis using i ScalePolygon by (simp add: scalePolygon_def)
  next
    case (Some ring)
    with i have c: "ring_closed ring" "\<forall>p \<in> set ring. wf_point p" by (simp_all add: fp_inv_def)
    show ?thesis
    proof (cases "rotationCenter st")
      case None
      then have "apply_fp_op st op = st"
        using Some c(1) ScalePolygon by (simp add: scalePolygon_def ring_closed_def)
      then show ?thesis using i by simp
    next
      case (Some center)
      from scale_closed [OF \<open>geojsonPolygon st = Some ring\<close> c Some, of f] i show ?thesis
        using ScalePolygon by (auto simp add: fp_inv_def)
    qed
  qed
qed

lemma foldl_apply_fp_op_inv: "fp_inv st \<Longrightarrow> fp_inv (foldl apply_fp_op st ops)"
  by (induction ops arbitrary: st) (simp_all add: apply_fp_op_inv)

lemma initial_fp_inv: "fp_inv initial_floorplan_state"
  by (simp add: fp_inv_def initial_floorplan_state_def)


text \<open>
  C10.  \<open>finishDrawing\<close> on at least three tracked points stores a closed ring: the
  points as drawn when they are already closed, otherwise with the first point appended.
  On a stored closed ring, \<open>translatePolygon\<close>, \<open>rotatePolygon\<close> and \<open>scalePolygon\<close>
  succeed (the latter two given a rotation centre) and store a closed ring with the same
  number of vertices.  Hence after any sequence of drawing, reset and transform operations
  from the initial state, a footprint polygon that is present has a closed ring.
\<close>

theorem footprint_ring_closed:
  "(3 \<le> length (drawingPoints st) \<and> (\<forall>p \<in> set (drawingPoints st). wf_point p) \<longrightarrow>
      (\<exists>ring. geojsonPolygon (finishDrawing st) = Some ring \<and> ring_closed ring
         \<and> ring = (if ring_closed (drawingPoints st) then drawingPoints st
                   else drawingPoints st @ [[hd (drawingPoints st) ! 0, hd (drawingPoints st) ! 1]])))
   \<and> (geojsonPolygon st = Some ring \<and> ring_closed ring \<and> (\<forall>p \<in> set ring. wf_point p) \<longrightarrow>
        (\<exists>st' ring'. translatePolygon st dx dy = Inr st' \<and> geojsonPolygon st' = Some ring'
            \<and> ring_closed ring' \<and> length ring' = length ring)
      \<and> (\<forall>center. rotationCenter st = Some center \<longrightarrow>
            (\<exists>st' ring'. rotatePolygon st r = Inr st' \<and> geojsonPolygon st' = Some ring'
               \<and> ring_closed ring' \<and> length ring' = length ring)
          \<and> (\<exists>st' ring'. scalePolygon st f = Inr st' \<and> geojsonPolygon st' = Some ring'
               \<and> ring_closed ring' \<and> length ring' = length ring)))
   \<and> (case geojsonPolygon (foldl apply_fp_op initial_floorplan_state ops) of
        None \<Rightarrow> True
      | Some ring \<Rightarrow> ring_closed ring)"
proof -
  have a: "3 \<le> length (drawingPoints st) \<and> (\<forall>p \<in> set (drawingPoints st). wf_point p) \<longrightarrow>
      (\<exists>ring. geojsonPolygon (finishDrawing st) = Some ring \<and> ring_closed ring
         \<and> ring = (if ring_closed (drawingPoints st) then drawingPoints st
                   else drawingPoints st @ [[hd (drawingPoints st) ! 0, hd (drawingPoints st) ! 1]]))"
    using finishDrawing_closed [of st] by blast
  have b: "geojsonPolygon st = Some ring \<and> ring_closed ring \<and> (\<forall>p \<in> set ring. wf_point p) \<longrightarrow>
        (\<exists>st' ring'. translatePolygon st dx dy = Inr st' \<and> geojsonPolygon st' = Some ring'
            \<and> ring_closed ring' \<and> length ring' = length ring)"
    using translate_closed [of st ring dx dy] by blast
  have c: "geojsonPolygon st = Some ring \<and> ring_closed ring \<and> (\<forall>p \<in> set ring. wf_point p) \<longrightarrow>
        (\<forall>center. rotationCenter st = Some center \<longrightarrow>
            (\<exists>st' ring'. rotatePolygon st r = Inr st' \<and> geojsonPolygon st' = Some ring'
               \<and> ring_closed ring' \<and> length ring' = length ring))"
    using rotate_closed [of st ring _ r] by blast
  have d: "geojsonPolygon st = Some ring \<and> ring_closed ring \<and> (\<forall>p \<in> set ring. wf_point p) \<longrightarrow>
        (\<forall>center. rotationCenter st = Some center \<longrightarrow>
            (\<exists>st' ring'. scalePolygon st f = Inr st' \<and> geojsonPolygon st' = Some ring'
               \<and> ring_closed ring' \<and> length ring' = length ring))"
    using scale_closed [of st ring _ f] by blast
  have e: "case geojsonPolygon (foldl apply_fp_op initial_floorplan_state ops) of
        None \<Rightarrow> True
      | Some ring \<Rightarrow> ring_closed ring"
    using foldl_apply_fp_op_inv [OF initial_fp_inv, of ops]
    by (simp add: fp_inv_def split: option.splits)
  from a b c d e show ?thesis by blast
qed

lemma finish_drawn_triangle:
  "geojsonPolygon (finishDrawing drawn_triangle) = Some [[0, 0], [1, 0], [0, 1], [0, 0]]"
  by (simp add: finishDrawing_def drawn_triangle_def stopDrawingMode_def coord_def Let_def)

lemma start_rotation_triangle:
  "startRotation (placed_triangle \<lparr> rotationCenter := None \<rparr>) = Inr placed_triangle"
  by (simp add: startRotation_def placed_triangle_def getPolygonCenter_def)

theorem footprint_ring_closed_witness:
  "geojsonPolygon (finishDrawing drawn_triangle) = Some [[0, 0], [1, 0], [0, 1], [0, 0]]
   \<and> ring_closed [[0, 0], [1, 0], [0, 1], [0, 0]]
   \<and> (\<exists>st' ring'. translatePolygon placed_triangle 2 3 = Inr st' \<and> geojsonPolygon st' = Some ring'
         \<and> ring_closed ring' \<and> length ring' = 4)
   \<and> (\<exists>st' ring'. rotatePolygon placed_triangle 1 = Inr st' \<and> geojsonPolygon st' = Some ring'
         \<and> ring_closed ring' \<and> length ring' = 4)
   \<and> (\<exists>st' ring'. scalePolygon placed_triangle 2 = Inr st' \<and> geojsonPolygon st' = Some ring'
         \<and> ring_closed ring' \<and> length ring' = 4)"
proof -
  have w: "\<forall>p \<in> set [[0, 0], [1, 0], [0, 1], [0, 0 :: real]]. wf_point p"
    by (simp add: wf_point_def)
  have w3: "\<forall>p \<in> set (drawingPoints drawn_triangle). wf_point p"
    by (simp add: wf_point_def drawn_triangle_def)
  have l3: "3 \<le> length (drawingPoints drawn_triangle)"
    by (simp add: drawn_triangle_def)
  have g: "geojsonPolygon placed_triangle = Some [[0, 0], [1, 0], [0, 1], [0, 0]]"
    and rc: "rotationCenter placed_triangle = Some \<lparr> lng = 1 / 3, lat = 1 / 3 \<rparr>"
    by (simp_all add: placed_triangle_def)
  have cl: "ring_closed [[0, 0], [1, 0], [0, 1], [0, 0]]"
  proof -
    from footprint_ring_closed [of drawn_triangle, THEN conjunct1] l3 w3
    obtain ring where "geojsonPolygon (finishDrawing drawn_triangle) = Some ring"
      and "ring_closed ring"
      by blast
    then show ?thesis by (simp add: finish_drawn_triangle)
  qed
  let ?R = "[[0, 0], [1, 0], [0, 1], [0, 0]] :: point list"
  have l4: "length ?R = 4" by simp
  have t: "geojsonPolygon placed_triangle = Some ?R \<and> ring_closed ?R \<and> (\<forall>p \<in> set ?R. wf_point p)"
    using g cl w by blast
  from footprint_ring_closed [where st = placed_triangle and ring = ?R and dx = 2 and dy = 3
      and r = 1 and f = 2 and ops = "[]"] t rc
  have "(\<exists>st' ring'. translatePolygon placed_triangle 2 3 = Inr st' \<and> geojsonPolygon st' = Some ring'
            \<and> ring_closed ring' \<and> length ring' = length ?R)
      \<and> (\<exists>st' ring'. rotatePolygon placed_triangle 1 = Inr st' \<and> geojsonPolygon st' = Some ring'
            \<and> ring_closed ring' \<and> length ring' = length ?R)
      \<and> (\<exists>st' ring'. scalePolygon placed_triangle 2 = Inr st' \<and> geojsonPolygon st' = Some ring'
            \<and> ring_closed ring' \<and> length ring' = length ?R)"
    by blast
  then show ?thesis
    unfolding l4 using finish_drawn_triangle cl by blast
qed

section \<open>Snapshot parsing with the quote fallback\<close>

lemma replace_quotes_no_single: "CHR 0x27 \<notin> set (replace_quotes s)"
  by (auto simp add: replace_quotes_def)

lemma replace_quotes_to_single:
  "CHR 0x27 \<notin> set t \<Longrightarrow> replace_quotes (to_single_quotes t) = t"
  by (induction t) (auto simp add: replace_quotes_def to_single_quotes_def)

text \<open>
  C5.  When \<^verbatim>\<open>JSON.parse\<close> rejects \<open>snapshot_data\<close>, the loader's result is that of
  \<^verbatim>\<open>JSON.parse\<close> on the text with every single quote replaced by a double quote (all
  other characters kept).  So the single-quote variant of a text that parses (and holds no
  single quote of its own) is parsed to the same value, and the payload is given up
  exactly when the retry fails too.
\<close>

theorem snapshot_quote_fallback:
  assumes "JSON_parse snapshot_data = None"
  shows "parse_snapshot_data JSON_parse snapshot_data = JSON_parse (replace_quotes snapshot_data)
       \<and> length (replace_quotes snapshot_data) = length snapshot_data
       \<and> (\<forall>i < length snapshot_data.
            replace_quotes snapshot_data ! i
              = (if snapshot_data ! i = CHR 0x27 then CHR 0x22 else snapshot_data ! i))
       \<and> (\<forall>t j. CHR 0x27 \<notin> set t \<and> snapshot_data = to_single_quotes t \<and> JSON_parse t = Some j
            \<longrightarrow> parse_snapshot_data JSON_parse snapshot_data = Some j)
       \<and> (parse_snapshot_data JSON_parse snapshot_data = None
            \<longleftrightarrow> JSON_parse (replace_quotes snapshot_data) = None)"
proof -
  have p: "parse_snapshot_data JSON_parse snapshot_data = JSON_parse (replace_quotes snapshot_data)"
    using assms by (simp add: parse_snapshot_data_def split: option.splits)
  have v: "\<forall>t j. CHR 0x27 \<notin> set t \<and> snapshot_data = to_single_quotes t \<and> JSON_parse t = Some j
            \<longrightarrow> parse_snapshot_data JSON_parse snapshot_data = Some j"
    using p by (auto simp add: replace_quotes_to_single)
  show ?thesis
    using p v by (simp add: replace_quotes_def)
qed

theorem snapshot_quote_fallback_witness:
  "parse_snapshot_data sample_parse
      [CHR ''{'', CHR 0x27, CHR ''a'', CHR 0x27, CHR '':'', CHR ''1'', CHR ''}''] = Some 1
   \<and> replace_quotes [CHR ''{'', CHR 0x27, CHR ''a'', CHR 0x27, CHR '':'', CHR ''1'', CHR ''}'']
       = sample_json
   \<and> parse_snapshot_data sample_parse [CHR ''{'', CHR 0x27, CHR ''a'', CHR ''}''] = None"
  using snapshot_quote_fallback
          [of sample_parse "[CHR ''{'', CHR 0x27, CHR ''a'', CHR 0x27, CHR '':'', CHR ''1'', CHR ''}'']"]
        snapshot_quote_fallback [of sample_parse "[CHR ''{'', CHR 0x27, CHR ''a'', CHR ''}'']"]
  by (simp add: sample_parse_def sample_json_def replace_quotes_def)

section \<open>Setback defaults in a recompute\<close>

lemma or_default_nonzero: "d \<noteq> 0 \<Longrightarrow> or_default (Num (or_default x d)) 0 = or_default x d"
  by (simp add: or_default_def split: jsnum.splits)

lemma classify_edge_effective:
  assumes "d_selectedFront d = Some fe" and "d_selectedBack d = Some be"
    and "frontSetback d = Num (or_default f 4.5)"
    and "backSetback d = Num (or_default b 3.5)"
    and "sideSetback d = Num (or_default s 1.5)"
  shows "classify_edge d i
           = classified (or_default f 4.5) (or_default b 3.5) (or_default s 1.5) (index fe) (index be) i"
  using assms by (simp add: classify_edge_def classified_def or_default_nonzero)

text \<open>
  The handlers themselves classify with setback 0 an edge whose payload setback is not
  numeric; the setbacks manager never sends such a payload.
\<close>

lemma handler_nan_setback_zero:
  assumes "d_selectedFront d = Some fe" and "d_selectedBack d = Some be"
  shows "(i = index fe \<and> frontSetback d = NaN \<longrightarrow> setback (classify_edge d i) = 0)
       \<and> (i \<noteq> index fe \<and> i = index be \<and> backSetback d = NaN \<longrightarrow> setback (classify_edge d i) = 0)
       \<and> (i \<noteq> index fe \<and> i \<noteq> index be \<and> sideSetback d = NaN \<longrightarrow> setback (classify_edge d i) = 0)"
  using assms by (simp add: classify_edge_def or_default_def)

text \<open>
  C4 (amended).  With both edges selected and a site boundary present, a preview and a
  confirmed recompute produce a request, never an error, whatever the setback inputs are.
  An input that is missing or not numeric is replaced by its default (front 4.5, back 3.5,
  side 1.5): that value is the setback of the corresponding edges in the edge
  classifications, and it is the value of the corresponding key of the requirements
  unless the council requirements hold that key, which then take its place.
\<close>

theorem recompute_setback_defaults:
  assumes "selectedFront st = Some fe" and "selectedBack st = Some be"
    and "req = \<lparr> site_coords = siteCoords,
                 requirements =
                   [''front_setback'' \<mapsto> Num (or_default f 4.5),
                    ''side_setback'' \<mapsto> Num (or_default s 1.5),
                    ''rear_setback'' \<mapsto> Num (or_default b 3.5)] ++ council,
                 edge_classifications =
                   map (classified (or_default f 4.5) (or_default b 3.5) (or_default s 1.5)
                          (index fe) (index be))
                       [0..<length (polygonEdges st)] \<rparr>"
  shows "preview_recompute st f b s (Some siteCoords) council = Some req
       \<and> confirm_recompute st f b s (Some siteCoords) council = Some (Inr req)
       \<and> or_default NaN 4.5 = 4.5 \<and> or_default NaN 3.5 = 3.5 \<and> or_default NaN 1.5 = 1.5
       \<and> (\<forall>i < length (polygonEdges st).
            (f = NaN \<and> i = index fe \<longrightarrow> setback (edge_classifications req ! i) = 4.5)
          \<and> (b = NaN \<and> i \<noteq> index fe \<and> i = index be \<longrightarrow> setback (edge_classifications req ! i) = 3.5)
          \<and> (s = NaN \<and> i \<noteq> index fe \<and> i \<noteq> index be \<longrightarrow> setback (edge_classifications req ! i) = 1.5))
       \<and> (council ''front_setback'' = None \<longrightarrow>
            requirements req ''front_setback'' = Some (Num (or_default f 4.5)))
       \<and> (council ''side_setback'' = None \<longrightarrow>
            requirements req ''side_setback'' = Some (Num (or_default s 1.5)))
       \<and> (council ''rear_setback'' = None \<longrightarrow>
            requirements req ''rear_setback'' = Some (Num (or_default b 3.5)))
       \<and> (\<forall>k v. council k = Some v \<longrightarrow> requirements req k = Some v)"
proof -
  let ?d = "\<lparr> frontSetback = Num (or_default f 4.5), backSetback = Num (or_default b 3.5),
              sideSetback = Num (or_default s 1.5), d_selectedFront = selectedFront st,
              d_selectedBack = selectedBack st, d_polygonEdges = polygonEdges st \<rparr>"
  have ev: "calculateBuildableAreaPreview st f b s = Some ?d"
      "recalculateBuildableArea st f b s = Some ?d"
    using assms(1,2) by (simp_all add: calculateBuildableAreaPreview_def recalculateBuildableArea_def)
  have cl: "edgeClassifications ?d
      = map (classified (or_default f 4.5) (or_default b 3.5) (or_default s 1.5)
               (index fe) (index be)) [0..<length (polygonEdges st)]"
    unfolding edgeClassifications_def
    by (rule map_cong) (simp_all add: classify_edge_effective [where fe = fe and be = be] assms(1,2))
  have br: "build_request ?d siteCoords council = req"
    using cl by (simp add: build_request_def assms(3))
  have p: "preview_recompute st f b s (Some siteCoords) council = Some req"
    using br by (simp add: preview_recompute_def ev preview_request_def)
  have c: "confirm_recompute st f b s (Some siteCoords) council = Some (Inr req)"
    using br by (simp add: confirm_recompute_def ev calculation_request_def)
  have n: "or_default NaN 4.5 = 4.5 \<and> or_default NaN 3.5 = 3.5 \<and> or_default NaN 1.5 = 1.5"
    by (simp add: or_default_def)
  have e: "\<forall>i < length (polygonEdges st).
            (f = NaN \<and> i = index fe \<longrightarrow> setback (edge_classifications req ! i) = 4.5)
          \<and> (b = NaN \<and> i \<noteq> index fe \<and> i = index be \<longrightarrow> setback (edge_classifications req ! i) = 3.5)
          \<and> (s = NaN \<and> i \<noteq> index fe \<and> i \<noteq> index be \<longrightarrow> setback (edge_classifications req ! i) = 1.5)"
    by (simp add: assms(3) classified_def or_default_def)
  have r: "(council ''front_setback'' = None \<longrightarrow>
            requirements req ''front_setback'' = Some (Num (or_default f 4.5)))
       \<and> (council ''side_setback'' = None \<longrightarrow>
            requirements req ''side_setback'' = Some (Num (or_default s 1.5)))
       \<and> (council ''rear_setback'' = None \<longrightarrow>
            requirements req ''rear_setback'' = Some (Num (or_default b 3.5)))
       \<and> (\<forall>k v. council k = Some v \<longrightarrow> requirements req k = Some v)"
    by (simp add: assms(3) map_add_def)
  from p c n e r show ?thesis by blast
qed

text \<open>
  With all three inputs missing, the confirmed recompute for the triangular site sends the
  defaults, not zeros.
\<close>

theorem missing_setback_is_not_zero_counterexample:
  "confirm_recompute tri_selected NaN NaN NaN (Some [[0, 0], [1, 0], [0, 1], [0, 0]]) Map.empty
     = Some (Inr \<lparr> site_coords = [[0, 0], [1, 0], [0, 1], [0, 0]],
                   requirements =
                     [''front_setback'' \<mapsto> Num 4.5, ''side_setback'' \<mapsto> Num 1.5,
                      ''rear_setback'' \<mapsto> Num 3.5],
                   edge_classifications =
                     [\<lparr> c_index = 0, c_type = Front, setback = 4.5 \<rparr>,
                      \<lparr> c_index = 1, c_type = Side, setback = 1.5 \<rparr>,
                      \<lparr> c_index = 2, c_type = Back, setback = 3.5 \<rparr>] \<rparr>)"
  by (simp add: confirm_recompute_def recalculateBuildableArea_def calculation_request_def
        build_request_def edgeClassifications_def classify_edge_def or_default_def
        tri_selected_def tri_edges_def upt_conv_Cons)

theorem recompute_setback_defaults_witness:
  "preview_recompute tri_selected NaN NaN (Num 2) (Some [[0, 0], [1, 0], [0, 1], [0, 0]]) Map.empty
     = Some \<lparr> site_coords = [[0, 0], [1, 0], [0, 1], [0, 0]],
              requirements =
                [''front_setback'' \<mapsto> Num 4.5, ''side_setback'' \<mapsto> Num 2,
                 ''rear_setback'' \<mapsto> Num 3.5],
              edge_classifications =
                [\<lparr> c_index = 0, c_type = Front, setback = 4.5 \<rparr>,
                 \<lparr> c_index = 1, c_type = Side, setback = 2 \<rparr>,
                 \<lparr> c_index = 2, c_type = Back, setback = 3.5 \<rparr>] \<rparr>
   \<and> map_option (\<lambda>r. (requirements r ''front_setback'', map setback (edge_classifications r)))
       (preview_recompute tri_selected NaN NaN (Num 2) (Some [[0, 0], [1, 0], [0, 1], [0, 0]])
          [''front_setback'' \<mapsto> Num 6])
     = Some (Some (Num 6), [4.5, 2, 3.5])"
  using recompute_setback_defaults [where st = tri_selected and fe = "tri_edges ! 0"
      and be = "tri_edges ! 2" and f = NaN and b = NaN and s = "Num 2"
      and siteCoords = "[[0, 0], [1, 0], [0, 1], [0, 0]]" and council = Map.empty, OF _ _ refl]
    recompute_setback_defaults [where st = tri_selected and fe = "tri_edges ! 0"
      and be = "tri_edges ! 2" and f = NaN and b = NaN and s = "Num 2"
      and siteCoords = "[[0, 0], [1, 0], [0, 1], [0, 0]]"
      and council = "[''front_setback'' \<mapsto> Num 6]", OF _ _ refl]
  by (simp add: tri_selected_def tri_edges_def classified_def or_default_def upt_conv_Cons)

section \<open>Superseded preview requests\<close>

lemma preview_step_inv: "preview_inv st \<Longrightarrow> preview_inv (preview_step st ev)"
  by (cases ev) (auto simp add: preview_inv_def Let_def split: option.splits if_splits)

lemma foldl_preview_step_inv: "preview_inv st \<Longrightarrow> preview_inv (foldl preview_step st evs)"
  by (induction evs arbitrary: st) (simp_all add: preview_step_inv)

lemma initial_preview_inv: "preview_inv initial_preview_state"
  by (simp add: preview_inv_def initial_preview_state_def)

text \<open>
  C3.  After any sequence of preview events, responses and failures: at most one preview
  request is awaited, and it is the one issued last; a response that changes the displayed
  preview belongs to the request issued last, so the late response of a superseded request
  is never drawn; and a new preview leaves its own request as the only awaited one, the
  prior one having been aborted.
\<close>

theorem preview_supersede:
  "length (in_flight (foldl preview_step initial_preview_state evs)) \<le> 1
   \<and> (\<forall>c. c \<in> set (in_flight (foldl preview_step initial_preview_state evs)) \<longrightarrow>
          previewAbortController (foldl preview_step initial_preview_state evs) = Some c
        \<and> Suc c = issued (foldl preview_step initial_preview_state evs))
   \<and> (\<forall>c ok coords.
          displayed (preview_step (foldl preview_step initial_preview_state evs) (Response c ok coords))
            \<noteq> displayed (foldl preview_step initial_preview_state evs)
          \<longrightarrow> Suc c = issued (foldl preview_step initial_preview_state evs))
   \<and> (\<forall>siteCoords.
          in_flight (preview_step (foldl preview_step initial_preview_state evs) (Preview (Some siteCoords)))
            = [issued (foldl preview_step initial_preview_state evs)])"
proof -
  let ?st = "foldl preview_step initial_preview_state evs"
  have i: "preview_inv ?st"
    using foldl_preview_step_inv [OF initial_preview_inv] .
  have a: "length (in_flight ?st) \<le> 1"
    using i by (auto simp add: preview_inv_def split: option.splits)
  have b: "\<forall>c. c \<in> set (in_flight ?st) \<longrightarrow>
          previewAbortController ?st = Some c \<and> Suc c = issued ?st"
    using i by (auto simp add: preview_inv_def split: option.splits)
  have c: "\<forall>c ok coords. displayed (preview_step ?st (Response c ok coords)) \<noteq> displayed ?st
          \<longrightarrow> Suc c = issued ?st"
    using b by (auto split: if_splits)
  have d: "\<forall>siteCoords. in_flight (preview_step ?st (Preview (Some siteCoords))) = [issued ?st]"
    using i by (auto simp add: preview_inv_def Let_def split: option.splits)
  from a b c d show ?thesis by blast
qed

theorem preview_supersede_witness:
  "in_flight (foldl preview_step initial_preview_state [Preview (Some []), Preview (Some [])]) = [1]
   \<and> displayed (foldl preview_step initial_preview_state
        [Preview (Some []), Preview (Some []), Response 0 True [[0, 0], [1, 0], [0, 1]]]) = None
   \<and> displayed (foldl preview_step initial_preview_state
        [Preview (Some []), Preview (Some []), Response 0 True [[0, 0], [1, 0], [0, 1]],
         Response 1 True [[0, 0], [2, 0], [0, 2]]]) = Some (1, [[0, 0], [2, 0], [0, 2]])"
  using preview_supersede [of "[Preview (Some []), Preview (Some [])]"]
  by (simp add: initial_preview_state_def)

end
